theory Spec2Isabelle
  imports Complex_Main
begin

section \<open>Tensors and errors\<close>

text \<open>
  A tensor is its shape together with its elements in row-major order. The elements are
  real numbers, among them every finite floating-point value; infinities and NaN are not
  part of this development. The operations of this section compute exactly; the
  rounding of float32 arithmetic is a section of its own below.
\<close>

record tensor =
  shape :: "nat list"
  vals :: "real list"

text \<open>
  The exceptions of the Python code are values. A \<open>ValueError\<close> carries what its message
  is formatted with.
\<close>

datatype value_error =
    Learning_rate real
  | Weight_decay real
  | Epochs int
  | Epsilon real
  | Log_interval int
  | Sample_range real real

datatype error =
    ValueError value_error
  | RuntimeError
  | IndexError
  | ZeroDivisionError

text \<open>\<open>torch.min(t)\<close> and \<open>torch.max(t)\<close> over all elements; both raise on a tensor without elements.\<close>

definition torch_min :: "tensor \<Rightarrow> error + real" where
  "torch_min t = (if vals t = [] then Inl RuntimeError else Inr (Min (set (vals t))))"

definition torch_max :: "tensor \<Rightarrow> error + real" where
  "torch_max t = (if vals t = [] then Inl RuntimeError else Inr (Max (set (vals t))))"

text \<open>\<open>t.sign()\<close>, \<open>epsilon * t\<close> and \<open>torch.clamp(t, lo, hi)\<close> act on every element.\<close>

definition sign_t :: "tensor \<Rightarrow> tensor" where
  "sign_t t = t\<lparr>vals := map sgn (vals t)\<rparr>"

definition scale_t :: "real \<Rightarrow> tensor \<Rightarrow> tensor" where
  "scale_t c t = t\<lparr>vals := map (\<lambda>x. c * x) (vals t)\<rparr>"

definition clamp_t :: "tensor \<Rightarrow> real \<Rightarrow> real \<Rightarrow> tensor" where
  "clamp_t t lo hi = t\<lparr>vals := map (\<lambda>x. min (max x lo) hi) (vals t)\<rparr>"

text \<open>
  \<open>a + b\<close> for two tensors of one shape, which is how the code uses it: the second operand
  comes from the gradient of the first (\<open>data.grad\<close>), which has the shape of \<open>data\<close>.
  Broadcasting between different shapes is not modelled; the theorems below assume equal
  shapes.
\<close>

definition add_t :: "tensor \<Rightarrow> tensor \<Rightarrow> tensor" where
  "add_t a b = a\<lparr>vals := map2 (+) (vals a) (vals b)\<rparr>"

text \<open>Two tensors of one shape.\<close>

definition same_shape :: "tensor \<Rightarrow> tensor \<Rightarrow> bool" where
  "same_shape a b \<longleftrightarrow> shape a = shape b \<and> length (vals a) = length (vals b)"

section \<open>The adversarial sample generator\<close>

text \<open>
  \<open>_get_fgsm_samples(sample, epsilon, sample_grad)\<close>: the range check on the observed
  extrema of the batch, written as the chained comparison
  \<open>0 <= min_value < max_value <= 1\<close>, then the perturbation and the clamp.
\<close>

definition get_fgsm_samples :: "tensor \<Rightarrow> real \<Rightarrow> tensor \<Rightarrow> error + tensor" where
  "get_fgsm_samples sample epsilon sample_grad =
     (case torch_min sample of
        Inl e \<Rightarrow> Inl e
      | Inr min_value \<Rightarrow>
          (case torch_max sample of
             Inl e \<Rightarrow> Inl e
           | Inr max_value \<Rightarrow>
               if \<not> (0 \<le> min_value \<and> min_value < max_value \<and> max_value \<le> 1)
               then Inl (ValueError (Sample_range min_value max_value))
               else
                 let sign_sample_grad = sign_t sample_grad;
                     perturbed_sample = add_t sample (scale_t epsilon sign_sample_grad)
                 in Inr (clamp_t perturbed_sample 0 1)))"

section \<open>The adversarial sample generator on float32 tensors\<close>

text \<open>
  The tensors that \<open>fit\<close> hands to the generator are float32 by default, and torch rounds
  the result of every arithmetic operation on them to the nearest float32 value, ties to
  the even significand. \<open>round_half_even\<close> is the nearest integer with that tie rule.
\<close>

definition round_half_even :: "real \<Rightarrow> int" where
  "round_half_even z =
     (let f = \<lfloor>z\<rfloor>
      in if z - of_int f < 1/2 then f
         else if 1/2 < z - of_int f then f + 1
         else if even f then f else f + 1)"

text \<open>
  The distance between neighbouring float32 values around a magnitude \<open>a\<close>:
  \<open>1 / 2 ^ 149\<close> below \<open>1 / 2 ^ 125\<close> (the subnormal numbers and the first binade),
  doubling with every binade up to the last one, 253 binades later. Magnitudes beyond the largest float32 value,
  which torch rounds to infinity, are not part of this development.
\<close>

fun spacing :: "nat \<Rightarrow> real \<Rightarrow> real \<Rightarrow> real" where
  "spacing 0 u a = u"
| "spacing (Suc n) u a = (if a < 2 ^ 24 * u then u else spacing n (2 * u) a)"

definition ulp32 :: "real \<Rightarrow> real" where
  "ulp32 y = spacing 253 (1 / 2 ^ 149) \<bar>y\<bar>"

definition float32 :: "real \<Rightarrow> real" where
  "float32 y = of_int (round_half_even (y / ulp32 y)) * ulp32 y"

text \<open>
  \<open>epsilon * t\<close> for a Python float \<open>epsilon\<close> (a double, here the real number it stands
  for) and a float32 tensor: \<open>epsilon\<close> is converted to float32 and the products are
  rounded. \<open>a + b\<close> rounds the sums. The comparisons of the range check, \<open>sign\<close> and
  \<open>clamp\<close> with the bounds 0 and 1 are exact.
\<close>

definition scale_t_f32 :: "real \<Rightarrow> tensor \<Rightarrow> tensor" where
  "scale_t_f32 c t = t\<lparr>vals := map (\<lambda>x. float32 (float32 c * x)) (vals t)\<rparr>"

definition add_t_f32 :: "tensor \<Rightarrow> tensor \<Rightarrow> tensor" where
  "add_t_f32 a b = a\<lparr>vals := map2 (\<lambda>x y. float32 (x + y)) (vals a) (vals b)\<rparr>"

text \<open>\<open>_get_fgsm_samples\<close> with this arithmetic.\<close>

definition get_fgsm_samples_f32 :: "tensor \<Rightarrow> real \<Rightarrow> tensor \<Rightarrow> error + tensor" where
  "get_fgsm_samples_f32 sample epsilon sample_grad =
     (case torch_min sample of
        Inl e \<Rightarrow> Inl e
      | Inr min_value \<Rightarrow>
          (case torch_max sample of
             Inl e \<Rightarrow> Inl e
           | Inr max_value \<Rightarrow>
               if \<not> (0 \<le> min_value \<and> min_value < max_value \<and> max_value \<le> 1)
               then Inl (ValueError (Sample_range min_value max_value))
               else
                 let sign_sample_grad = sign_t sample_grad;
                     perturbed_sample = add_t_f32 sample (scale_t_f32 epsilon sign_sample_grad)
                 in Inr (clamp_t perturbed_sample 0 1)))"

section \<open>Hyper-parameter validation\<close>

text \<open>
  \<open>_BaseAdversarialTraining._validate_parameters\<close>: five checks in the order of the source,
  the first failing one raises. The learning rate, the weight decay and epsilon are
  floats, the number of epochs and the log interval are integers.
\<close>

definition validate_parameters :: "real \<Rightarrow> real \<Rightarrow> int \<Rightarrow> real \<Rightarrow> int \<Rightarrow> error + unit" where
  "validate_parameters lr weight_decay epochs epsilon log_interval =
     (if \<not> lr > 0 then Inl (ValueError (Learning_rate lr))
      else if \<not> weight_decay \<ge> 0 then Inl (ValueError (Weight_decay weight_decay))
      else if \<not> epochs > 0 then Inl (ValueError (Epochs epochs))
      else if \<not> (0 < epsilon \<and> epsilon \<le> 1) then Inl (ValueError (Epsilon epsilon))
      else if \<not> log_interval > 0 then Inl (ValueError (Log_interval log_interval))
      else Inr ())"

section \<open>Data loaders and the number of outputs\<close>

text \<open>
  A \<open>DataLoader\<close>: the \<open>(data, target)\<close> batches it yields, in order, and the \<open>classes\<close>
  attribute of its dataset when the dataset has one.
\<close>

record loader =
  classes :: "string list option"
  batches :: "(tensor \<times> tensor) list"

text \<open>\<open>t.size()[i]\<close> and \<open>t.size(i)\<close>: the extent of dimension \<open>i\<close>, an \<open>IndexError\<close> when there is none.\<close>

definition size_t :: "tensor \<Rightarrow> nat \<Rightarrow> error + nat" where
  "size_t t i = (if i < length (shape t) then Inr (shape t ! i) else Inl IndexError)"

text \<open>
  \<open>torch.cat(ts)\<close> along dimension 0: it needs at least one tensor, no tensor of rank 0, and
  the same extents after the first in all of them. \<open>torch.unique(t)\<close> is the sorted
  rank-1 tensor of the distinct elements.
\<close>

definition torch_cat :: "tensor list \<Rightarrow> error + tensor" where
  "torch_cat ts =
     (case ts of
        [] \<Rightarrow> Inl RuntimeError
      | t # rest \<Rightarrow>
          if list_ex (\<lambda>u. shape u = [] \<or> tl (shape u) \<noteq> tl (shape t)) ts
          then Inl RuntimeError
          else Inr \<lparr>shape = sum_list (map (\<lambda>u. hd (shape u)) ts) # tl (shape t),
                    vals = concat (map vals ts)\<rparr>)"

definition torch_unique :: "tensor \<Rightarrow> tensor" where
  "torch_unique t =
     \<lparr>shape = [length (remdups (vals t))], vals = sort (remdups (vals t))\<rparr>"

text \<open>\<open>BaseModule._decide_n_outputs(train_loader, is_classification)\<close>.\<close>

definition decide_n_outputs :: "loader \<Rightarrow> bool \<Rightarrow> error + nat" where
  "decide_n_outputs train_loader is_classification =
     (if is_classification then
        (case classes train_loader of
           Some cs \<Rightarrow> Inr (length cs)
         | None \<Rightarrow>
             (case torch_cat (map snd (batches train_loader)) of
                Inl e \<Rightarrow> Inl e
              | Inr labels \<Rightarrow> size_t (torch_unique labels) 0))
      else
        (case batches train_loader of
           [] \<Rightarrow> Inr 0
         | (_, target) # _ \<Rightarrow>
             if length (shape target) = 1 then Inr 1 else size_t target 1))"

section \<open>Estimators and the ensemble\<close>

text \<open>
  The output of an estimator on a batch is a matrix, a list of rows, one row per sample.
  What torch does with an estimator, an optimizer and a loss is not code of this module;
  it is a parameter of the development:
  \<^item> \<open>base_estimator k\<close> is the estimator that the \<open>k\<close>-th call of \<open>_make_estimator\<close> in a
    \<open>fit\<close> returns (a fresh, independently initialised one);
  \<^item> \<open>set_optimizer e name lr weight_decay\<close> is \<open>set_module.set_optimizer\<close>;
  \<^item> \<open>call e data\<close> is \<open>estimator(data)\<close>;
  \<^item> \<open>data_grad e criterion data target\<close> is \<open>data.grad.data\<close> after the backward pass of
    \<open>criterion(estimator(data), target)\<close>;
  \<^item> \<open>step e opt criterion data adv_data target\<close> is the estimator and the optimizer after
    \<open>zero_grad\<close>, the backward pass of the sum of the two losses, and \<open>optimizer.step()\<close>;
  \<^item> \<open>mse_loss output target\<close> is \<open>nn.MSELoss()(output, target)\<close>;
  \<^item> \<open>in_place\<close> says where joblib runs the tasks of a dispatch. In the process of the
    caller, which is what \<open>n_jobs=None\<close> (the default) and \<open>n_jobs=1\<close> select, training
    changes the estimator objects themselves and the dispatch returns these objects;
    in worker processes, copies are trained and returned, and the objects of the caller
    stay as they were.
  A value of the type of estimators is the state of an estimator object (its parameters)
  at one moment. The lists of the model hold such states; which lists hold the same
  objects is written out where training in place makes it matter.
\<close>

type_synonym matrix = "real list list"

datatype criterion = CrossEntropyLoss | MSELoss

record ('e, 'o) torch_env =
  base_estimator :: "nat \<Rightarrow> 'e"
  set_optimizer :: "'e \<Rightarrow> string \<Rightarrow> real \<Rightarrow> real \<Rightarrow> 'o"
  call :: "'e \<Rightarrow> tensor \<Rightarrow> matrix"
  data_grad :: "'e \<Rightarrow> criterion \<Rightarrow> tensor \<Rightarrow> tensor \<Rightarrow> tensor"
  step :: "'e \<Rightarrow> 'o \<Rightarrow> criterion \<Rightarrow> tensor \<Rightarrow> tensor \<Rightarrow> tensor \<Rightarrow> 'e \<times> 'o"
  mse_loss :: "matrix \<Rightarrow> tensor \<Rightarrow> real"
  in_place :: bool

text \<open>
  The ensemble: \<open>self_estimators\<close> is the attribute \<open>self.estimators_\<close>, the committed
  estimators. The calls to the collaborators are recorded in \<open>trace\<close>, oldest first: a
  base estimator constructed, an optimizer constructed in an epoch for the estimator
  \<open>idx\<close>, the ensemble handed to \<open>io.save\<close> with the estimators it held then.
\<close>

datatype 'e event =
    Made_estimator
  | Made_optimizer nat nat
  | Saved "'e list"

record 'e ensemble =
  n_estimators :: nat
  n_outputs :: nat
  self_estimators :: "'e list"
  trace :: "'e event list"

definition record_events :: "'e event list \<Rightarrow> 'e ensemble \<Rightarrow> 'e ensemble" where
  "record_events evs self = self\<lparr>trace := trace self @ evs\<rparr>"

text \<open>\<open>_make_estimator\<close>, called \<open>n_estimators\<close> times at the start of \<open>fit\<close>.\<close>

definition make_estimators :: "('e, 'o) torch_env \<Rightarrow> 'e ensemble \<Rightarrow> 'e list \<times> 'e ensemble" where
  "make_estimators env self =
     (map (base_estimator env) [0..<n_estimators self],
      record_events (replicate (n_estimators self) Made_estimator) self)"

section \<open>Aggregation\<close>

text \<open>
  \<open>torch.zeros(batch_size, n_outputs)\<close>, \<open>F.softmax(m, dim=1)\<close> and \<open>m / c\<close>. Division by
  zero is not reached where the theorems below use it.
\<close>

definition zeros :: "nat \<Rightarrow> nat \<Rightarrow> matrix" where
  "zeros batch_size n = replicate batch_size (replicate n 0)"

definition softmax_row :: "real list \<Rightarrow> real list" where
  "softmax_row xs = map (\<lambda>x. exp x / sum_list (map exp xs)) xs"

definition softmax :: "matrix \<Rightarrow> matrix" where
  "softmax m = map softmax_row m"

definition div_scalar :: "matrix \<Rightarrow> real \<Rightarrow> matrix" where
  "div_scalar m c = map (map (\<lambda>x. x / c)) m"

text \<open>
  The in-place \<open>a += b\<close> of two matrices: \<open>b\<close> is broadcast to the shape of \<open>a\<close>. It must
  have the rows of \<open>a\<close> or a single row, and its rows the columns of \<open>a\<close> or a single
  column; torch raises a \<open>RuntimeError\<close> otherwise. The columns are compared row by row,
  so a matrix without rows is never found too wide.
\<close>

definition add_row :: "real list \<Rightarrow> real list \<Rightarrow> error + real list" where
  "add_row p r =
     (if length r = length p then Inr (map2 (+) p r)
      else case r of [c] \<Rightarrow> Inr (map (\<lambda>x. x + c) p) | _ \<Rightarrow> Inl RuntimeError)"

fun all_rows :: "(error + 'a) list \<Rightarrow> error + 'a list" where
  "all_rows [] = Inr []"
| "all_rows (r # rs) =
     (case r of
        Inl e \<Rightarrow> Inl e
      | Inr x \<Rightarrow> (case all_rows rs of Inl e \<Rightarrow> Inl e | Inr xs \<Rightarrow> Inr (x # xs)))"

definition add_m :: "matrix \<Rightarrow> matrix \<Rightarrow> error + matrix" where
  "add_m a b =
     (if length b = length a then all_rows (map2 add_row a b)
      else case b of [r] \<Rightarrow> all_rows (map (\<lambda>p. add_row p r) a) | _ \<Rightarrow> Inl RuntimeError)"

text \<open>
  The loop \<open>for estimator in estimators: proba += term(estimator)\<close> of the two \<open>forward\<close>
  methods; it ends at the first addition that raises.
\<close>

fun forward_loop :: "('e \<Rightarrow> matrix) \<Rightarrow> matrix \<Rightarrow> 'e list \<Rightarrow> error + matrix" where
  "forward_loop term proba [] = Inr proba"
| "forward_loop term proba (estimator # rest) =
     (case add_m proba (term estimator) of
        Inl e \<Rightarrow> Inl e
      | Inr proba' \<Rightarrow> forward_loop term proba' rest)"

text \<open>
  \<open>AdversarialTrainingClassifier.forward\<close> and the helper \<open>_forward\<close> inside its \<open>fit\<close> are
  the same loop, over \<open>self.estimators_\<close> and over the estimators being trained.
\<close>

definition classifier_forward_on ::
  "('e, 'o) torch_env \<Rightarrow> 'e ensemble \<Rightarrow> 'e list \<Rightarrow> tensor \<Rightarrow> error + matrix" where
  "classifier_forward_on env self estimators data =
     (case size_t data 0 of
        Inl e \<Rightarrow> Inl e
      | Inr batch_size \<Rightarrow>
          forward_loop (\<lambda>estimator. div_scalar (softmax (call env estimator data))
                                                (real (n_estimators self)))
            (zeros batch_size (n_outputs self)) estimators)"

definition classifier_forward :: "('e, 'o) torch_env \<Rightarrow> 'e ensemble \<Rightarrow> tensor \<Rightarrow> error + matrix" where
  "classifier_forward env self x = classifier_forward_on env self (self_estimators self) x"

text \<open>\<open>AdversarialTrainingRegressor.forward\<close> and the \<open>_forward\<close> of its \<open>fit\<close>.\<close>

definition regressor_forward_on ::
  "('e, 'o) torch_env \<Rightarrow> 'e ensemble \<Rightarrow> 'e list \<Rightarrow> tensor \<Rightarrow> error + matrix" where
  "regressor_forward_on env self estimators data =
     (case size_t data 0 of
        Inl e \<Rightarrow> Inl e
      | Inr batch_size \<Rightarrow>
          forward_loop (\<lambda>estimator. div_scalar (call env estimator data)
                                                (real (n_estimators self)))
            (zeros batch_size (n_outputs self)) estimators)"

definition regressor_forward :: "('e, 'o) torch_env \<Rightarrow> 'e ensemble \<Rightarrow> tensor \<Rightarrow> error + matrix" where
  "regressor_forward env self x = regressor_forward_on env self (self_estimators self) x"

section \<open>Training one estimator for one epoch\<close>

text \<open>
  The loop over the batches in \<open>_parallel_fit_per_epoch\<close>. For every batch: the batch size
  \<open>data.size()[0]\<close>, the gradient of the loss at the input, the adversarial samples (which
  can raise), one optimizer step on the sum of the clean and the adversarial loss. The
  progress lines it prints are left out.
\<close>

fun fit_batches ::
  "('e, 'o) torch_env \<Rightarrow> real \<Rightarrow> criterion \<Rightarrow> 'e \<times> 'o \<Rightarrow> (tensor \<times> tensor) list
     \<Rightarrow> error + 'e \<times> 'o" where
  "fit_batches env epsilon crit (estimator, opt) [] = Inr (estimator, opt)"
| "fit_batches env epsilon crit (estimator, opt) ((data, target) # rest) =
     (case size_t data 0 of
        Inl e \<Rightarrow> Inl e
      | Inr batch_size \<Rightarrow>
          (case get_fgsm_samples data epsilon (data_grad env estimator crit data target) of
             Inl e \<Rightarrow> Inl e
           | Inr adv_data \<Rightarrow>
               fit_batches env epsilon crit (step env estimator opt crit data adv_data target) rest))"

text \<open>
  \<open>_parallel_fit_per_epoch\<close>: it constructs the optimizer of the estimator, runs the
  batches and returns the estimator.
\<close>

definition parallel_fit_per_epoch ::
  "('e, 'o) torch_env \<Rightarrow> loader \<Rightarrow> real \<Rightarrow> real \<Rightarrow> nat \<Rightarrow> string \<Rightarrow> real \<Rightarrow> int \<Rightarrow> nat \<Rightarrow> 'e
     \<Rightarrow> criterion \<Rightarrow> bool \<Rightarrow> 'e event list \<times> (error + 'e)" where
  "parallel_fit_per_epoch env train_loader lr weight_decay epoch optimizer epsilon log_interval
       idx estimator crit is_classification =
     ([Made_optimizer epoch idx],
      (case fit_batches env epsilon crit
              (estimator, set_optimizer env estimator optimizer lr weight_decay)
              (batches train_loader) of
         Inl e \<Rightarrow> Inl e
       | Inr (trained, opt) \<Rightarrow> Inr trained))"

text \<open>
  \<open>Parallel(n_jobs)(delayed(f)(x) for x in xs)\<close> of joblib: the list of the results in the
  order of the tasks, or the exception of a task that failed. The events are those of the
  sequential backend, which is what \<open>n_jobs=None\<close> selects: the tasks run one after the
  other and the first failure ends the dispatch.
\<close>

fun parallel :: "('a \<Rightarrow> 'ev list \<times> (error + 'b)) \<Rightarrow> 'a list \<Rightarrow> 'ev list \<times> (error + 'b list)" where
  "parallel f [] = ([], Inr [])"
| "parallel f (x # xs) =
     (case f x of
        (evs, Inl e) \<Rightarrow> (evs, Inl e)
      | (evs, Inr y) \<Rightarrow>
          (case parallel f xs of
             (evs', Inl e) \<Rightarrow> (evs @ evs', Inl e)
           | (evs', Inr ys) \<Rightarrow> (evs @ evs', Inr (y # ys))))"

text \<open>The dispatch of one epoch in \<open>fit\<close>, over \<open>enumerate(estimators)\<close>.\<close>

definition dispatch_epoch ::
  "('e, 'o) torch_env \<Rightarrow> loader \<Rightarrow> real \<Rightarrow> real \<Rightarrow> nat \<Rightarrow> string \<Rightarrow> real \<Rightarrow> int \<Rightarrow> 'e list
     \<Rightarrow> criterion \<Rightarrow> bool \<Rightarrow> 'e event list \<times> (error + 'e list)" where
  "dispatch_epoch env train_loader lr weight_decay epoch optimizer epsilon log_interval
       estimators crit is_classification =
     parallel (\<lambda>(idx, estimator).
                 parallel_fit_per_epoch env train_loader lr weight_decay epoch optimizer epsilon
                   log_interval idx estimator crit is_classification)
              (enumerate 0 estimators)"

section \<open>Validation\<close>

text \<open>
  \<open>if test_loader:\<close> is the truth value of a \<open>DataLoader\<close>, which has a length: \<open>None\<close> and a
  loader without batches both skip the validation.
\<close>

definition given :: "loader option \<Rightarrow> bool" where
  "given test_loader = (case test_loader of None \<Rightarrow> False | Some l \<Rightarrow> batches l \<noteq> [])"

text \<open>
  \<open>torch.max(output, 1)\<close> gives for every row the index of its first maximal element; it
  raises on rows without elements.
\<close>

definition argmax_row :: "real list \<Rightarrow> error + nat" where
  "argmax_row row =
     (if row = [] then Inl RuntimeError
      else Inr (length (takeWhile (\<lambda>x. x \<noteq> Max (set row)) row)))"

fun argmax_rows :: "matrix \<Rightarrow> error + nat list" where
  "argmax_rows [] = Inr []"
| "argmax_rows (row # rows) =
     (case argmax_row row of
        Inl e \<Rightarrow> Inl e
      | Inr i \<Rightarrow> (case argmax_rows rows of Inl e \<Rightarrow> Inl e | Inr is \<Rightarrow> Inr (i # is)))"

text \<open>\<open>(predicted == target).sum().item()\<close> for a target of rank 1 with one label per row.\<close>

definition count_equal :: "nat list \<Rightarrow> tensor \<Rightarrow> nat" where
  "count_equal predicted target =
     length (filter (\<lambda>(p, t). real p = t) (zip predicted (vals target)))"

text \<open>The loop over the validation batches of the classifier, on \<open>correct\<close> and \<open>total\<close> (here \<open>total'\<close>).\<close>

fun count_correct ::
  "('e, 'o) torch_env \<Rightarrow> 'e ensemble \<Rightarrow> 'e list \<Rightarrow> nat \<times> nat \<Rightarrow> (tensor \<times> tensor) list
     \<Rightarrow> error + nat \<times> nat" where
  "count_correct env self estimators (correct, total') [] = Inr (correct, total')"
| "count_correct env self estimators (correct, total') ((data, target) # rest) =
     (case classifier_forward_on env self estimators data of
        Inl e \<Rightarrow> Inl e
      | Inr output \<Rightarrow>
          (case argmax_rows output of
             Inl e \<Rightarrow> Inl e
           | Inr predicted \<Rightarrow>
               (case size_t target 0 of
                  Inl e \<Rightarrow> Inl e
                | Inr n \<Rightarrow>
                    count_correct env self estimators
                      (correct + count_equal predicted target, total' + n) rest)))"

text \<open>\<open>acc = 100 * correct / total\<close>, a division of Python integers.\<close>

definition validation_acc ::
  "('e, 'o) torch_env \<Rightarrow> 'e ensemble \<Rightarrow> 'e list \<Rightarrow> loader \<Rightarrow> error + real" where
  "validation_acc env self estimators test_loader =
     (case count_correct env self estimators (0, 0) (batches test_loader) of
        Inl e \<Rightarrow> Inl e
      | Inr (correct, total') \<Rightarrow>
          if total' = 0 then Inl ZeroDivisionError
          else Inr (100 * real correct / real total'))"

text \<open>The loop over the validation batches of the regressor, on \<open>mse\<close>, and \<open>mse /= len(test_loader)\<close>.\<close>

fun sum_mse ::
  "('e, 'o) torch_env \<Rightarrow> 'e ensemble \<Rightarrow> 'e list \<Rightarrow> real \<Rightarrow> (tensor \<times> tensor) list \<Rightarrow> error + real" where
  "sum_mse env self estimators mse [] = Inr mse"
| "sum_mse env self estimators mse ((data, target) # rest) =
     (case regressor_forward_on env self estimators data of
        Inl e \<Rightarrow> Inl e
      | Inr output \<Rightarrow> sum_mse env self estimators (mse + mse_loss env output target) rest)"

definition validation_mse ::
  "('e, 'o) torch_env \<Rightarrow> 'e ensemble \<Rightarrow> 'e list \<Rightarrow> loader \<Rightarrow> error + real" where
  "validation_mse env self estimators test_loader =
     (case sum_mse env self estimators 0 (batches test_loader) of
        Inl e \<Rightarrow> Inl e
      | Inr mse \<Rightarrow>
          if batches test_loader = [] then Inl ZeroDivisionError
          else Inr (mse / real (length (batches test_loader))))"

section \<open>The training loop\<close>

text \<open>
  The variables of \<open>fit\<close> that the epochs change: the ensemble \<open>self\<close>, the list
  \<open>estimators\<close> (it is \<open>rets\<close> after every dispatch) and the best metric so far. When
  \<open>fit\<close> raises, what remains is the exception and the ensemble as it was then.
  \<open>cur_shared\<close> says whether \<open>self.estimators_\<close> holds the objects of \<open>estimators\<close>: not at
  the start of \<open>fit\<close>, where the estimators are new objects, and from the first
  \<open>self.estimators_.extend(estimators)\<close> on.
\<close>

record ('e, 'b) fit_state =
  cur_self :: "'e ensemble"
  cur_estimators :: "'e list"
  cur_best :: 'b
  cur_shared :: bool

text \<open>
  What a dispatch that runs in place does to the objects in \<open>estimators\<close>, also when it
  raises: the estimators before the failing one are trained, the failing one is as far as
  its loop over the batches got, the others are untouched. When the dispatch returns,
  this is the list it returns.
\<close>

fun fit_batches_reached ::
  "('e, 'o) torch_env \<Rightarrow> real \<Rightarrow> criterion \<Rightarrow> 'e \<times> 'o \<Rightarrow> (tensor \<times> tensor) list \<Rightarrow> 'e \<times> 'o" where
  "fit_batches_reached env epsilon crit (estimator, opt) [] = (estimator, opt)"
| "fit_batches_reached env epsilon crit (estimator, opt) ((data, target) # rest) =
     (case size_t data 0 of
        Inl e \<Rightarrow> (estimator, opt)
      | Inr batch_size \<Rightarrow>
          (case get_fgsm_samples data epsilon (data_grad env estimator crit data target) of
             Inl e \<Rightarrow> (estimator, opt)
           | Inr adv_data \<Rightarrow>
               fit_batches_reached env epsilon crit
                 (step env estimator opt crit data adv_data target) rest))"

fun dispatch_reached ::
  "('e, 'o) torch_env \<Rightarrow> loader \<Rightarrow> real \<Rightarrow> real \<Rightarrow> string \<Rightarrow> real \<Rightarrow> criterion \<Rightarrow> 'e list
     \<Rightarrow> 'e list" where
  "dispatch_reached env train_loader lr weight_decay optimizer epsilon crit [] = []"
| "dispatch_reached env train_loader lr weight_decay optimizer epsilon crit (estimator # rest) =
     (case fit_batches env epsilon crit
             (estimator, set_optimizer env estimator optimizer lr weight_decay)
             (batches train_loader) of
        Inr (trained, opt) \<Rightarrow>
          trained # dispatch_reached env train_loader lr weight_decay optimizer epsilon crit rest
      | Inl e \<Rightarrow>
          fst (fit_batches_reached env epsilon crit
                 (estimator, set_optimizer env estimator optimizer lr weight_decay)
                 (batches train_loader)) # rest)"

text \<open>
  The ensemble after a dispatch has left the objects of \<open>estimators\<close> in the states
  \<open>objects\<close>: when the dispatch ran in place and \<open>self.estimators_\<close> holds these objects,
  the committed estimators are in these states too.
\<close>

definition share_training ::
  "('e, 'o) torch_env \<Rightarrow> bool \<Rightarrow> 'e list \<Rightarrow> 'e ensemble \<Rightarrow> 'e ensemble" where
  "share_training env shared objects self =
     (if in_place env \<and> shared then self\<lparr>self_estimators := objects\<rparr> else self)"

text \<open>\<open>io.save(self, save_dir, self.logger)\<close>, recorded with the estimators the ensemble holds.\<close>

definition io_save :: "'e ensemble \<Rightarrow> 'e ensemble" where
  "io_save self = record_events [Saved (self_estimators self)] self"

text \<open>\<open>for epoch in range(epochs)\<close>: the body on every epoch in order, until one raises.\<close>

fun for_epochs :: "(nat \<Rightarrow> 's \<Rightarrow> 'x + 's) \<Rightarrow> nat list \<Rightarrow> 's \<Rightarrow> 'x + 's" where
  "for_epochs body [] st = Inr st"
| "for_epochs body (epoch # rest) st =
     (case body epoch st of
        Inl x \<Rightarrow> Inl x
      | Inr st' \<Rightarrow> for_epochs body rest st')"

text \<open>
  The selection after the validation of an epoch of the classifier: \<open>if acc > best_acc\<close>,
  the new best value, the estimators committed to \<open>self.estimators_\<close>, and the save.
\<close>

definition select_acc ::
  "bool \<Rightarrow> 'e ensemble \<Rightarrow> 'e list \<Rightarrow> bool \<Rightarrow> real \<Rightarrow> real \<Rightarrow> ('e, real) fit_state" where
  "select_acc save_model self rets shared best_acc acc =
     (if acc > best_acc then
        \<lparr>cur_self = (let self' = self\<lparr>self_estimators := rets\<rparr>
                     in if save_model then io_save self' else self'),
         cur_estimators = rets,
         cur_best = acc,
         cur_shared = True\<rparr>
      else \<lparr>cur_self = self, cur_estimators = rets, cur_best = best_acc,
            cur_shared = shared\<rparr>)"

text \<open>The body of the training loop of \<open>AdversarialTrainingClassifier.fit\<close>.\<close>

definition classifier_epoch ::
  "('e, 'o) torch_env \<Rightarrow> loader \<Rightarrow> real \<Rightarrow> real \<Rightarrow> string \<Rightarrow> real \<Rightarrow> int \<Rightarrow> loader option \<Rightarrow> bool
     \<Rightarrow> nat \<Rightarrow> ('e, real) fit_state \<Rightarrow> error \<times> 'e ensemble + ('e, real) fit_state" where
  "classifier_epoch env train_loader lr weight_decay optimizer epsilon log_interval test_loader
       save_model epoch st =
     (case dispatch_epoch env train_loader lr weight_decay epoch optimizer epsilon log_interval
             (cur_estimators st) CrossEntropyLoss True of
        (evs, Inl e) \<Rightarrow>
          Inl (e, record_events evs
                    (share_training env (cur_shared st)
                       (dispatch_reached env train_loader lr weight_decay optimizer epsilon
                          CrossEntropyLoss (cur_estimators st))
                       (cur_self st)))
      | (evs, Inr rets) \<Rightarrow>
          (let self = record_events evs (share_training env (cur_shared st) rets (cur_self st));
               unvalidated = \<lparr>cur_self = self, cur_estimators = rets, cur_best = cur_best st,
                              cur_shared = cur_shared st\<rparr>
           in case test_loader of
                None \<Rightarrow> Inr unvalidated
              | Some l \<Rightarrow>
                  if batches l = [] then Inr unvalidated
                  else
                    (case validation_acc env self rets l of
                       Inl e \<Rightarrow> Inl (e, self)
                     | Inr acc \<Rightarrow>
                         Inr (select_acc save_model self rets (cur_shared st) (cur_best st) acc))))"

text \<open>
  \<open>AdversarialTrainingClassifier.fit\<close>. The result is \<open>Inr\<close> of the ensemble when it
  returns, \<open>Inl\<close> of the exception and the ensemble when it raises. Where to save
  (\<open>save_dir\<close>) plays no role here.
\<close>

definition classifier_fit ::
  "('e, 'o) torch_env \<Rightarrow> 'e ensemble \<Rightarrow> loader \<Rightarrow> real \<Rightarrow> real \<Rightarrow> int \<Rightarrow> string \<Rightarrow> real \<Rightarrow> int
     \<Rightarrow> loader option \<Rightarrow> bool \<Rightarrow> error \<times> 'e ensemble + 'e ensemble" where
  "classifier_fit env self train_loader lr weight_decay epochs optimizer epsilon log_interval
       test_loader save_model =
     (case make_estimators env self of
        (estimators, self1) \<Rightarrow>
          (case validate_parameters lr weight_decay epochs epsilon log_interval of
             Inl e \<Rightarrow> Inl (e, self1)
           | Inr _ \<Rightarrow>
               (case decide_n_outputs train_loader True of
                  Inl e \<Rightarrow> Inl (e, self1)
                | Inr n \<Rightarrow>
                    (case for_epochs
                            (classifier_epoch env train_loader lr weight_decay optimizer epsilon
                               log_interval test_loader save_model)
                            [0..<nat epochs]
                            \<lparr>cur_self = self1\<lparr>n_outputs := n\<rparr>,
                             cur_estimators = estimators,
                             cur_best = 0,
                             cur_shared = False\<rparr> of
                       Inl x \<Rightarrow> Inl x
                     | Inr st \<Rightarrow>
                         (let self' = (cur_self st)\<lparr>self_estimators := cur_estimators st\<rparr>
                          in Inr (if save_model \<and> \<not> given test_loader then io_save self'
                                  else self'))))))"

text \<open>
  The best mean squared error starts as \<open>float("inf")\<close>; \<open>mse_less mse best_mse\<close> is the
  test \<open>mse < best_mse\<close>.
\<close>

datatype best_mse = Infinity | Finite real

fun mse_less :: "real \<Rightarrow> best_mse \<Rightarrow> bool" where
  "mse_less mse Infinity = True"
| "mse_less mse (Finite b) = (mse < b)"

definition select_mse ::
  "bool \<Rightarrow> 'e ensemble \<Rightarrow> 'e list \<Rightarrow> bool \<Rightarrow> best_mse \<Rightarrow> real \<Rightarrow> ('e, best_mse) fit_state" where
  "select_mse save_model self rets shared best mse =
     (if mse_less mse best then
        \<lparr>cur_self = (let self' = self\<lparr>self_estimators := rets\<rparr>
                     in if save_model then io_save self' else self'),
         cur_estimators = rets,
         cur_best = Finite mse,
         cur_shared = True\<rparr>
      else \<lparr>cur_self = self, cur_estimators = rets, cur_best = best, cur_shared = shared\<rparr>)"

text \<open>The body of the training loop of \<open>AdversarialTrainingRegressor.fit\<close>.\<close>

definition regressor_epoch ::
  "('e, 'o) torch_env \<Rightarrow> loader \<Rightarrow> real \<Rightarrow> real \<Rightarrow> string \<Rightarrow> real \<Rightarrow> int \<Rightarrow> loader option \<Rightarrow> bool
     \<Rightarrow> nat \<Rightarrow> ('e, best_mse) fit_state \<Rightarrow> error \<times> 'e ensemble + ('e, best_mse) fit_state" where
  "regressor_epoch env train_loader lr weight_decay optimizer epsilon log_interval test_loader
       save_model epoch st =
     (case dispatch_epoch env train_loader lr weight_decay epoch optimizer epsilon log_interval
             (cur_estimators st) MSELoss False of
        (evs, Inl e) \<Rightarrow>
          Inl (e, record_events evs
                    (share_training env (cur_shared st)
                       (dispatch_reached env train_loader lr weight_decay optimizer epsilon
                          MSELoss (cur_estimators st))
                       (cur_self st)))
      | (evs, Inr rets) \<Rightarrow>
          (let self = record_events evs (share_training env (cur_shared st) rets (cur_self st));
               unvalidated = \<lparr>cur_self = self, cur_estimators = rets, cur_best = cur_best st,
                              cur_shared = cur_shared st\<rparr>
           in case test_loader of
                None \<Rightarrow> Inr unvalidated
              | Some l \<Rightarrow>
                  if batches l = [] then Inr unvalidated
                  else
                    (case validation_mse env self rets l of
                       Inl e \<Rightarrow> Inl (e, self)
                     | Inr mse \<Rightarrow>
                         Inr (select_mse save_model self rets (cur_shared st) (cur_best st) mse))))"

text \<open>
  \<open>AdversarialTrainingRegressor.fit\<close>. The source calls
  \<open>self._decide_n_outputs(train_loader, True)\<close> here as well.
\<close>

definition regressor_fit ::
  "('e, 'o) torch_env \<Rightarrow> 'e ensemble \<Rightarrow> loader \<Rightarrow> real \<Rightarrow> real \<Rightarrow> int \<Rightarrow> string \<Rightarrow> real \<Rightarrow> int
     \<Rightarrow> loader option \<Rightarrow> bool \<Rightarrow> error \<times> 'e ensemble + 'e ensemble" where
  "regressor_fit env self train_loader lr weight_decay epochs optimizer epsilon log_interval
       test_loader save_model =
     (case make_estimators env self of
        (estimators, self1) \<Rightarrow>
          (case validate_parameters lr weight_decay epochs epsilon log_interval of
             Inl e \<Rightarrow> Inl (e, self1)
           | Inr _ \<Rightarrow>
               (case decide_n_outputs train_loader True of
                  Inl e \<Rightarrow> Inl (e, self1)
                | Inr n \<Rightarrow>
                    (case for_epochs
                            (regressor_epoch env train_loader lr weight_decay optimizer epsilon
                               log_interval test_loader save_model)
                            [0..<nat epochs]
                            \<lparr>cur_self = self1\<lparr>n_outputs := n\<rparr>,
                             cur_estimators = estimators,
                             cur_best = Infinity,
                             cur_shared = False\<rparr> of
                       Inl x \<Rightarrow> Inl x
                     | Inr st \<Rightarrow>
                         (let self' = (cur_self st)\<lparr>self_estimators := cur_estimators st\<rparr>
                          in Inr (if save_model \<and> \<not> given test_loader then io_save self'
                                  else self'))))))"

text \<open>\<open>best_mse_le a b\<close>: the best value \<open>a\<close> is at most the best value \<open>b\<close>, with infinity on top.\<close>

fun best_mse_le :: "best_mse \<Rightarrow> best_mse \<Rightarrow> bool" where
  "best_mse_le a Infinity = True"
| "best_mse_le Infinity (Finite b) = False"
| "best_mse_le (Finite a) (Finite b) = (a \<le> b)"

section \<open>A small classifier and a small regressor\<close>

text \<open>
  Concrete inputs, on which the functions above are evaluated. An estimator is the number
  of optimizer steps it has taken; every batch of training is one step. The classifier
  has two classes: an estimator answers class 1 on every sample, except that after two
  steps it answers class 0 on the sample 0. The regressor multiplies its input by the
  number of steps taken and is scored by the mean of the squared errors. The gradient at
  the input is the input itself. Both train in place, as with the default \<open>n_jobs\<close>.
\<close>

definition toy_classifier :: "(int, unit) torch_env" where
  "toy_classifier =
     \<lparr>base_estimator = (\<lambda>k. 0),
      set_optimizer = (\<lambda>estimator name lr weight_decay. ()),
      call = (\<lambda>estimator data.
                map (\<lambda>x. if estimator = 2 \<and> x = 0 then [ln 2, 0] else [0, ln 2]) (vals data)),
      data_grad = (\<lambda>estimator crit data target. data),
      step = (\<lambda>estimator opt crit data adv_data target. (estimator + 1, opt)),
      mse_loss = (\<lambda>output target. 0),
      in_place = True\<rparr>"

definition toy_regressor :: "(int, unit) torch_env" where
  "toy_regressor =
     \<lparr>base_estimator = (\<lambda>k. 0),
      set_optimizer = (\<lambda>estimator name lr weight_decay. ()),
      call = (\<lambda>estimator data. map (\<lambda>x. [real_of_int estimator * x]) (vals data)),
      data_grad = (\<lambda>estimator crit data target. data),
      step = (\<lambda>estimator opt crit data adv_data target. (estimator + 1, opt)),
      mse_loss = (\<lambda>output target.
                    sum_list (map2 (\<lambda>row t. (sum_list row - t)\<^sup>2) output (vals target))
                      / real (length output)),
      in_place = True\<rparr>"

text \<open>
  The loaders: a training set with the labels 0 and 1; a validation set of twenty samples,
  twelve of class 1 and eight of class 0; a regression training set with four different
  targets in one batch of rank 1; one with a constant target; a validation set with one
  sample.
\<close>

definition toy_train :: loader where
  "toy_train =
     \<lparr>classes = None,
      batches = [(\<lparr>shape = [2, 1], vals = [0, 1]\<rparr>, \<lparr>shape = [2], vals = [0, 1]\<rparr>)]\<rparr>"

definition toy_test :: loader where
  "toy_test =
     \<lparr>classes = None,
      batches = [(\<lparr>shape = [20, 1], vals = [0, 1/20, 2/20, 3/20, 4/20, 5/20, 6/20, 7/20, 8/20, 9/20, 10/20, 11/20, 12/20, 13/20, 14/20, 15/20, 16/20, 17/20, 18/20, 19/20]\<rparr>,
                  \<lparr>shape = [20], vals = [1, 1, 1, 1, 1, 1, 1, 1, 1, 1, 1, 1, 0, 0, 0, 0, 0, 0, 0, 0]\<rparr>)]\<rparr>"

definition toy_targets :: loader where
  "toy_targets =
     \<lparr>classes = None,
      batches = [(\<lparr>shape = [4, 1], vals = [0, 1/4, 1/2, 1]\<rparr>,
                  \<lparr>shape = [4], vals = [1/10, 2/10, 3/10, 4/10]\<rparr>)]\<rparr>"

definition toy_constant :: loader where
  "toy_constant =
     \<lparr>classes = None,
      batches = [(\<lparr>shape = [2, 1], vals = [0, 1]\<rparr>, \<lparr>shape = [2], vals = [1, 1]\<rparr>)]\<rparr>"

definition toy_holdout :: loader where
  "toy_holdout =
     \<lparr>classes = None,
      batches = [(\<lparr>shape = [1, 1], vals = [1]\<rparr>, \<lparr>shape = [1], vals = [2]\<rparr>)]\<rparr>"

definition toy_self :: "int ensemble" where
  "toy_self = \<lparr>n_estimators = 1, n_outputs = 0, self_estimators = [], trace = []\<rparr>"

section \<open>Properties of the adversarial sample generator\<close>

lemma torch_min_Inr: "vals t \<noteq> [] \<Longrightarrow> torch_min t = Inr (Min (set (vals t)))"
  by (simp add: torch_min_def)

lemma torch_max_Inr: "vals t \<noteq> [] \<Longrightarrow> torch_max t = Inr (Max (set (vals t)))"
  by (simp add: torch_max_def)

lemma get_fgsm_samples_nonempty:
  "vals sample \<noteq> [] \<Longrightarrow>
   get_fgsm_samples sample epsilon sample_grad =
     (if 0 \<le> Min (set (vals sample)) \<and> Min (set (vals sample)) < Max (set (vals sample))
         \<and> Max (set (vals sample)) \<le> 1
      then Inr (clamp_t (add_t sample (scale_t epsilon (sign_t sample_grad))) 0 1)
      else Inl (ValueError (Sample_range (Min (set (vals sample))) (Max (set (vals sample))))))"
  by (simp add: get_fgsm_samples_def torch_min_Inr torch_max_Inr)

lemma get_fgsm_samples_empty:
  "vals sample = [] \<Longrightarrow> get_fgsm_samples sample epsilon sample_grad = Inl RuntimeError"
  by (simp add: get_fgsm_samples_def torch_min_def)

lemma perturbed_vals:
  "vals (clamp_t (add_t sample (scale_t epsilon (sign_t sample_grad))) 0 1) =
     map (\<lambda>(x, g). min (max (x + epsilon * sgn g) 0) 1) (zip (vals sample) (vals sample_grad))"
  by (simp add: clamp_t_def add_t_def scale_t_def sign_t_def zip_map2 split_def)

lemma perturbed_shape:
  "shape (clamp_t (add_t sample (scale_t epsilon (sign_t sample_grad))) 0 1) = shape sample"
  by (simp add: clamp_t_def add_t_def)

lemma get_fgsm_samples_Inr_iff:
  "get_fgsm_samples sample epsilon sample_grad = Inr out \<longleftrightarrow>
     vals sample \<noteq> [] \<and> 0 \<le> Min (set (vals sample))
     \<and> Min (set (vals sample)) < Max (set (vals sample)) \<and> Max (set (vals sample)) \<le> 1
     \<and> out = clamp_t (add_t sample (scale_t epsilon (sign_t sample_grad))) 0 1"
  by (cases "vals sample = []") (auto simp: get_fgsm_samples_nonempty get_fgsm_samples_empty)

lemma in_range_extrema:
  assumes "vals sample \<noteq> []" "\<forall>x\<in>set (vals sample). 0 \<le> x \<and> x \<le> 1"
  shows "0 \<le> Min (set (vals sample))" "Max (set (vals sample)) \<le> 1"
  using assms by simp_all

lemma not_constant_extrema:
  assumes "x \<in> set xs" "y \<in> set xs" "x \<noteq> (y::real)"
  shows "Min (set xs) < Max (set xs)"
proof -
  have "Min (set xs) \<le> min x y" using assms by (simp add: Min_le)
  moreover have "max x y \<le> Max (set xs)" using assms by simp
  moreover have "min x y < max x y" using assms by (simp add: min_def max_def)
  ultimately show ?thesis by linarith
qed

text \<open>
  Claim C4, as the code has it. For every batch whose values lie in \<open>[0, 1]\<close> and are
  not all equal, every step size \<open>epsilon\<close> and every gradient of the shape of the batch,
  the adversarial sample generator returns exactly
  \<open>clamp(input + epsilon * sign(gradient), 0, 1)\<close>, element by element, in the shape of the
  input.
\<close>

theorem fgsm_returns_clamped:
  assumes "\<forall>x\<in>set (vals sample). 0 \<le> x \<and> x \<le> 1"
    and "\<exists>x\<in>set (vals sample). \<exists>y\<in>set (vals sample). x \<noteq> y"
    and "same_shape sample_grad sample"
  shows "get_fgsm_samples sample epsilon sample_grad =
           Inr \<lparr>shape = shape sample,
                vals = map2 (\<lambda>x g. min (max (x + epsilon * sgn g) 0) 1)
                         (vals sample) (vals sample_grad)\<rparr>"
proof -
  from assms(2) have ne: "vals sample \<noteq> []" by auto
  from assms(2) have lt: "Min (set (vals sample)) < Max (set (vals sample))"
    by (blast intro: not_constant_extrema)
  have "get_fgsm_samples sample epsilon sample_grad =
          Inr (clamp_t (add_t sample (scale_t epsilon (sign_t sample_grad))) 0 1)"
    using ne lt in_range_extrema[OF ne assms(1)] by (simp add: get_fgsm_samples_nonempty)
  moreover have "clamp_t (add_t sample (scale_t epsilon (sign_t sample_grad))) 0 1 =
      \<lparr>shape = shape sample,
       vals = map2 (\<lambda>x g. min (max (x + epsilon * sgn g) 0) 1) (vals sample) (vals sample_grad)\<rparr>"
    by (rule tensor.equality) (simp_all add: perturbed_vals perturbed_shape)
  ultimately show ?thesis by simp
qed

theorem fgsm_returns_clamped_witness:
  "get_fgsm_samples \<lparr>shape = [3], vals = [0, 1/2, 1]\<rparr> (1/10) \<lparr>shape = [3], vals = [3, 0, 2]\<rparr>
     = Inr \<lparr>shape = [3], vals = [1/10, 1/2, 1]\<rparr>"
proof -
  let ?s = "\<lparr>shape = [3], vals = [0, 1/2, 1]\<rparr>" and ?g = "\<lparr>shape = [3], vals = [3, 0, 2]\<rparr>"
  have h1: "\<forall>x\<in>set (vals ?s). 0 \<le> x \<and> x \<le> 1" by simp
  have h2: "\<exists>x\<in>set (vals ?s). \<exists>y\<in>set (vals ?s). x \<noteq> y"
    by (rule bexI[of _ 0], rule bexI[of _ 1]) simp_all
  have h3: "same_shape ?g ?s" by (simp add: same_shape_def)
  show ?thesis using fgsm_returns_clamped [OF h1 h2 h3, of "1/10"] by simp
qed

text \<open>
  Claim C4 as stated, for every batch with values in \<open>[0, 1]\<close>, fails on a constant batch:
  the generator raises and returns no perturbed batch.
\<close>

theorem fgsm_constant_batch_counterexample:
  "get_fgsm_samples \<lparr>shape = [2], vals = [1/2, 1/2]\<rparr> (1/10) \<lparr>shape = [2], vals = [1, 1]\<rparr>
     = Inl (ValueError (Sample_range (1/2) (1/2)))"
  by (simp add: get_fgsm_samples_nonempty)

text \<open>With exact arithmetic the output stays within \<open>epsilon\<close> of the input.\<close>

lemma fgsm_exact_bounds:
  assumes "\<forall>x\<in>set (vals sample). 0 \<le> x \<and> x \<le> 1"
    and "0 < epsilon" and "epsilon \<le> 1"
    and "same_shape sample_grad sample"
    and "get_fgsm_samples sample epsilon sample_grad = Inr out"
  shows "length (vals out) = length (vals sample)
         \<and> (\<forall>i<length (vals sample).
               0 \<le> vals out ! i \<and> vals out ! i \<le> 1 \<and> \<bar>vals out ! i - vals sample ! i\<bar> \<le> epsilon)"
proof -
  from assms(5) have out: "out = clamp_t (add_t sample (scale_t epsilon (sign_t sample_grad))) 0 1"
    by (simp add: get_fgsm_samples_Inr_iff)
  have eq: "length (vals sample_grad) = length (vals sample)"
    using assms(4) by (simp add: same_shape_def)
  have len: "length (vals out) = length (vals sample)"
    using eq by (simp add: out perturbed_vals)
  have "0 \<le> vals out ! i \<and> vals out ! i \<le> 1 \<and> \<bar>vals out ! i - vals sample ! i\<bar> \<le> epsilon"
    if i: "i < length (vals sample)" for i
  proof -
    let ?x = "vals sample ! i" and ?g = "vals sample_grad ! i"
    have x: "0 \<le> ?x" "?x \<le> 1" using assms(1) i by simp_all
    have o: "vals out ! i = min (max (?x + epsilon * sgn ?g) 0) 1"
      using i eq by (simp add: out perturbed_vals)
    have "sgn ?g = 0 \<or> sgn ?g = 1 \<or> sgn ?g = -1" by (simp add: sgn_if)
    then show ?thesis using x assms(2,3) unfolding o by (auto simp: min_def max_def)
  qed
  with len show ?thesis by simp
qed

text \<open>
  Claim C6. For every batch with at least one value below 0 or above 1, the adversarial
  sample generator fails with the \<open>ValueError\<close> that reports the minimum and the maximum of
  that batch.
\<close>

theorem fgsm_rejects_out_of_range:
  assumes "\<exists>x\<in>set (vals sample). x < 0 \<or> 1 < x"
  shows "get_fgsm_samples sample epsilon sample_grad =
           Inl (ValueError (Sample_range (Min (set (vals sample))) (Max (set (vals sample)))))"
proof -
  from assms obtain x where x: "x \<in> set (vals sample)" "x < 0 \<or> 1 < x" by blast
  then have ne: "vals sample \<noteq> []" by auto
  have "Min (set (vals sample)) \<le> x" "x \<le> Max (set (vals sample))" using x(1) by simp_all
  with x(2) have "\<not> (0 \<le> Min (set (vals sample))
      \<and> Min (set (vals sample)) < Max (set (vals sample)) \<and> Max (set (vals sample)) \<le> 1)"
    by linarith
  then show ?thesis by (simp only: get_fgsm_samples_nonempty[OF ne] if_False)
qed

theorem fgsm_rejects_out_of_range_witness:
  "get_fgsm_samples \<lparr>shape = [3], vals = [1/5, 3/2, 1/2]\<rparr> (1/10) \<lparr>shape = [3], vals = [1, 1, 1]\<rparr>
     = Inl (ValueError (Sample_range (1/5) (3/2)))"
  using fgsm_rejects_out_of_range [of "\<lparr>shape = [3], vals = [1/5, 3/2, 1/2]\<rparr>" "1/10"
                                     "\<lparr>shape = [3], vals = [1, 1, 1]\<rparr>"]
  by simp

text \<open>
  Claim C10. For every batch with at least one element and all elements equal to one value
  \<open>c\<close>, also when \<open>c\<close> lies in \<open>[0, 1]\<close> (all zeros, all ones), the adversarial sample
  generator raises the \<open>ValueError\<close> with minimum and maximum \<open>c\<close> and returns no batch.
\<close>

theorem fgsm_rejects_constant_batch:
  assumes "vals sample \<noteq> []" and "\<forall>x\<in>set (vals sample). x = c"
  shows "get_fgsm_samples sample epsilon sample_grad = Inl (ValueError (Sample_range c c))"
proof -
  from assms have "set (vals sample) = {c}" by (cases "vals sample") auto
  then show ?thesis using assms(1) by (simp add: get_fgsm_samples_nonempty)
qed

theorem fgsm_rejects_constant_batch_witness:
  "get_fgsm_samples \<lparr>shape = [2, 2], vals = [0, 0, 0, 0]\<rparr> (1/2) \<lparr>shape = [2, 2], vals = [1, -1, 0, 2]\<rparr>
     = Inl (ValueError (Sample_range 0 0))
   \<and> get_fgsm_samples \<lparr>shape = [2], vals = [1, 1]\<rparr> (1/2) \<lparr>shape = [2], vals = [1, -1]\<rparr>
     = Inl (ValueError (Sample_range 1 1))"
  using fgsm_rejects_constant_batch [of "\<lparr>shape = [2, 2], vals = [0, 0, 0, 0]\<rparr>" 0 "1/2"
                                       "\<lparr>shape = [2, 2], vals = [1, -1, 0, 2]\<rparr>"]
        fgsm_rejects_constant_batch [of "\<lparr>shape = [2], vals = [1, 1]\<rparr>" 1 "1/2"
                                       "\<lparr>shape = [2], vals = [1, -1]\<rparr>"]
  by simp

section \<open>Properties of the generator on float32 tensors\<close>

lemma round_half_even_error: "\<bar>of_int (round_half_even z) - z\<bar> \<le> 1/2"
proof -
  have "of_int \<lfloor>z\<rfloor> \<le> z" "z < of_int \<lfloor>z\<rfloor> + 1" by linarith+
  then show ?thesis by (auto simp: round_half_even_def Let_def)
qed

lemma round_half_even_of_int: "round_half_even (of_int m) = m"
  by (simp add: round_half_even_def)

lemma spacing_pos: "0 < u \<Longrightarrow> 0 < spacing n u a"
  by (induction n arbitrary: u) simp_all

lemma spacing_le: "0 < u \<Longrightarrow> c = 2 ^ k * u \<Longrightarrow> a < 2 ^ 24 * c \<Longrightarrow> spacing n u a \<le> c"
proof (induction n arbitrary: u k)
  case 0
  have "(1::real) \<le> 2 ^ k" by simp
  with 0 show ?case by (simp add: mult_le_cancel_right1)
next
  case (Suc n)
  show ?case
  proof (cases "a < 2 ^ 24 * u")
    case True
    have "(1::real) \<le> 2 ^ k" by simp
    with Suc.prems True show ?thesis by (simp add: mult_le_cancel_right1)
  next
    case False
    with Suc.prems obtain k' where k: "k = Suc k'" by (cases k) auto
    have "spacing n (2 * u) a \<le> c"
      using Suc.prems k by (intro Suc.IH[of "2 * u" k']) simp_all
    with False show ?thesis by simp
  qed
qed

lemma spacing_eq:
  "0 < u \<Longrightarrow> c = 2 ^ k * u \<Longrightarrow> k \<le> n \<Longrightarrow> 2 ^ 23 * c \<le> a \<Longrightarrow> a < 2 ^ 24 * c
   \<Longrightarrow> spacing n u a = c"
proof (induction n arbitrary: u k)
  case 0
  then show ?case by simp
next
  case (Suc n)
  show ?case
  proof (cases "a < 2 ^ 24 * u")
    case True
    have "k = 0"
    proof (cases k)
      case 0
      then show ?thesis .
    next
      case (Suc k')
      have "(1::real) \<le> 2 ^ k'" by simp
      then have "2 ^ 24 * u \<le> 2 ^ 24 * u * 2 ^ k'"
        using Suc.prems(1) by (simp add: mult_le_cancel_left1)
      also have "\<dots> = 2 ^ 23 * c" using Suc.prems(2) Suc by simp
      finally show ?thesis using Suc.prems(4) True by simp
    qed
    with Suc.prems True show ?thesis by simp
  next
    case False
    with Suc.prems obtain k' where k: "k = Suc k'" by (cases k) auto
    have "spacing n (2 * u) a = c"
      using Suc.prems k by (intro Suc.IH[of "2 * u" k']) simp_all
    with False show ?thesis by simp
  qed
qed

lemma ulp32_pos: "0 < ulp32 y"
  by (simp add: ulp32_def spacing_pos)

lemma float32_error: "\<bar>float32 y - y\<bar> \<le> ulp32 y / 2"
proof -
  let ?u = "ulp32 y"
  have u: "0 < ?u" by (rule ulp32_pos)
  have "float32 y - y = (of_int (round_half_even (y / ?u)) - y / ?u) * ?u"
    using u by (simp add: float32_def algebra_simps)
  then have "\<bar>float32 y - y\<bar> = \<bar>of_int (round_half_even (y / ?u)) - y / ?u\<bar> * ?u"
    using u by (simp add: abs_mult)
  also have "\<dots> \<le> 1/2 * ?u"
    using u round_half_even_error[of "y / ?u"] by (intro mult_right_mono) simp_all
  finally show ?thesis by simp
qed

lemma float32_error_below_2: "\<bar>y\<bar> < 2 \<Longrightarrow> \<bar>float32 y - y\<bar> \<le> 1 / 2 ^ 24"
proof -
  assume "\<bar>y\<bar> < 2"
  then have "ulp32 y \<le> 1 / 2 ^ 23"
    unfolding ulp32_def by (intro spacing_le[where k = 126]) simp_all
  with float32_error[of y] show ?thesis by simp
qed

lemma float32_error_below_4: "\<bar>y\<bar> < 4 \<Longrightarrow> \<bar>float32 y - y\<bar> \<le> 1 / 2 ^ 23"
proof -
  assume "\<bar>y\<bar> < 4"
  then have "ulp32 y \<le> 1 / 2 ^ 22"
    unfolding ulp32_def by (intro spacing_le[where k = 127]) simp_all
  with float32_error[of y] show ?thesis by simp
qed

lemma float32_eval:
  assumes "c = 2 ^ k / 2 ^ 149" "k \<le> 253" "2 ^ 23 * c \<le> \<bar>y\<bar>" "\<bar>y\<bar> < 2 ^ 24 * c"
  shows "float32 y = of_int (round_half_even (y / c)) * c"
proof -
  have "ulp32 y = c"
    unfolding ulp32_def using assms by (intro spacing_eq[where k = k]) simp_all
  then show ?thesis by (simp add: float32_def)
qed

lemma float32_zero: "float32 0 = 0"
  by (simp add: float32_def round_half_even_def)

lemma float32_tenth: "float32 (1/10) = 13421773 / 134217728"
  by (subst float32_eval[where k = 122 and c = "1 / 2 ^ 27"])
     (simp_all add: round_half_even_def Let_def)

lemma float32_tenth_again: "float32 (13421773 / 134217728) = 13421773 / 134217728"
  by (subst float32_eval[where k = 122 and c = "1 / 2 ^ 27"])
     (simp_all add: round_half_even_def Let_def)

lemma float32_sum: "float32 (80530637 / 134217728) = 5033165 / 8388608"
  by (subst float32_eval[where k = 125 and c = "1 / 2 ^ 24"])
     (simp_all add: round_half_even_def Let_def)

lemma abs_near: "\<bar>a - b\<bar> \<le> d \<Longrightarrow> \<bar>b\<bar> \<le> m \<Longrightarrow> \<bar>a\<bar> \<le> m + (d::real)"
  by linarith

lemma abs_near_shifted: "\<bar>a - (x + b)\<bar> \<le> d \<Longrightarrow> \<bar>b\<bar> \<le> m \<Longrightarrow> \<bar>a - x\<bar> \<le> m + (d::real)"
  by linarith

lemma clamp_unit_closer:
  "0 \<le> x \<Longrightarrow> x \<le> 1 \<Longrightarrow> \<bar>y - x\<bar> \<le> (b::real)
   \<Longrightarrow> 0 \<le> min (max y 0) 1 \<and> min (max y 0) 1 \<le> 1 \<and> \<bar>min (max y 0) 1 - x\<bar> \<le> b"
  by (auto simp: min_def max_def)

lemma f32_element_bound:
  assumes x: "0 \<le> x" "x \<le> 1" and e: "0 < epsilon" "epsilon \<le> 1"
  shows "0 \<le> min (max (float32 (x + float32 (float32 epsilon * sgn g))) 0) 1
         \<and> min (max (float32 (x + float32 (float32 epsilon * sgn g))) 0) 1 \<le> 1
         \<and> \<bar>min (max (float32 (x + float32 (float32 epsilon * sgn g))) 0) 1 - x\<bar>
               \<le> epsilon + 1 / 2 ^ 22"
proof -
  let ?e = "float32 epsilon" and ?p = "float32 (float32 epsilon * sgn g)"
  let ?y = "float32 (x + ?p)"
  define d :: real where "d = 1 / 2 ^ 24"
  have d: "0 < d" "d < 1" "1 / 2 ^ 24 = d" "1 / 2 ^ 23 = 2 * d" "1 / 2 ^ 22 = 4 * d"
    by (simp_all add: d_def)
  have s: "\<bar>sgn g\<bar> \<le> 1" by (simp add: sgn_if)
  have "\<bar>?e - epsilon\<bar> \<le> d"
    using e float32_error_below_2[of epsilon] unfolding d(3) by simp
  from abs_near[OF this, of epsilon] e have e2: "\<bar>?e\<bar> \<le> epsilon + d" by simp
  have "\<bar>?e * sgn g\<bar> \<le> \<bar>?e\<bar>" using s by (simp add: abs_mult mult_left_le)
  with e2 have es: "\<bar>?e * sgn g\<bar> \<le> epsilon + d" by linarith
  then have "\<bar>?e * sgn g\<bar> < 2" using e d by linarith
  then have "\<bar>?p - ?e * sgn g\<bar> \<le> d"
    using float32_error_below_2[of "?e * sgn g"] unfolding d(3) by simp
  from abs_near[OF this es] have p: "\<bar>?p\<bar> \<le> epsilon + 2 * d" by simp
  then have "\<bar>x + ?p\<bar> < 4" using x e d by linarith
  then have "\<bar>?y - (x + ?p)\<bar> \<le> 2 * d"
    using float32_error_below_4[of "x + ?p"] unfolding d(4) by simp
  from abs_near_shifted[OF this p] have "\<bar>?y - x\<bar> \<le> epsilon + 4 * d" by simp
  from clamp_unit_closer[OF x this] show ?thesis unfolding d(5) .
qed

lemma get_fgsm_samples_f32_Inr:
  assumes "get_fgsm_samples_f32 sample epsilon sample_grad = Inr out"
  shows "out = clamp_t (add_t_f32 sample (scale_t_f32 epsilon (sign_t sample_grad))) 0 1"
  using assms
  by (auto simp: get_fgsm_samples_f32_def Let_def split: sum.splits if_splits)

text \<open>The range check is the same: both generators raise on the same batches.\<close>

lemma get_fgsm_samples_f32_raises:
  "get_fgsm_samples_f32 sample epsilon sample_grad = Inl err
   \<longleftrightarrow> get_fgsm_samples sample epsilon sample_grad = Inl err"
  by (auto simp: get_fgsm_samples_f32_def get_fgsm_samples_def Let_def split: sum.splits)

text \<open>
  Claim C5 as stated fails on float32 tensors: for the input 0.5, a positive gradient and
  \<open>epsilon = 0.1\<close>, the step is the float32 value nearest to 0.1 and the sum is rounded up,
  to \<open>10066330 / 2 ^ 24\<close>, which is more than 0.1 away from 0.5.
\<close>

theorem fgsm_float32_bound_counterexample:
  "get_fgsm_samples_f32 \<lparr>shape = [2], vals = [0, 1/2]\<rparr> (1/10) \<lparr>shape = [2], vals = [0, 3]\<rparr>
     = Inr \<lparr>shape = [2], vals = [0, 10066330 / 2 ^ 24]\<rparr>
   \<and> 1/10 < \<bar>vals \<lparr>shape = [2], vals = [0, 10066330 / 2 ^ 24]\<rparr> ! 1
             - vals \<lparr>shape = [2], vals = [0, 1/2]\<rparr> ! 1\<bar>"
  by (simp add: get_fgsm_samples_f32_def torch_min_def torch_max_def sign_t_def scale_t_f32_def
      add_t_f32_def clamp_t_def float32_tenth float32_tenth_again float32_sum float32_zero)

text \<open>
  Claim C5, as the code has it. For every batch with all values in \<open>[0, 1]\<close>, every
  \<open>epsilon\<close> in \<open>(0, 1]\<close> and every gradient of the shape of the batch, the output of the
  adversarial sample generator has one element for each element of the input, every one
  of them in \<open>[0, 1]\<close>; on float32 tensors it is at most \<open>epsilon + 1 / 2 ^ 22\<close> away from
  the input element at its position, and with exact arithmetic at most \<open>epsilon\<close>.
\<close>

theorem fgsm_output_bounds_rounded:
  assumes "\<forall>x\<in>set (vals sample). 0 \<le> x \<and> x \<le> 1"
    and "0 < epsilon" and "epsilon \<le> 1"
    and "same_shape sample_grad sample"
  shows "(\<forall>out. get_fgsm_samples_f32 sample epsilon sample_grad = Inr out
            \<longrightarrow> length (vals out) = length (vals sample)
                \<and> (\<forall>i<length (vals sample).
                      0 \<le> vals out ! i \<and> vals out ! i \<le> 1
                      \<and> \<bar>vals out ! i - vals sample ! i\<bar> \<le> epsilon + 1 / 2 ^ 22))
       \<and> (\<forall>out. get_fgsm_samples sample epsilon sample_grad = Inr out
            \<longrightarrow> length (vals out) = length (vals sample)
                \<and> (\<forall>i<length (vals sample).
                      0 \<le> vals out ! i \<and> vals out ! i \<le> 1
                      \<and> \<bar>vals out ! i - vals sample ! i\<bar> \<le> epsilon))"
proof (rule conjI; intro allI impI)
  fix out
  assume "get_fgsm_samples_f32 sample epsilon sample_grad = Inr out"
  then have out: "out = clamp_t (add_t_f32 sample (scale_t_f32 epsilon (sign_t sample_grad))) 0 1"
    by (rule get_fgsm_samples_f32_Inr)
  have eq: "length (vals sample_grad) = length (vals sample)"
    using assms(4) by (simp add: same_shape_def)
  have v: "vals out = map (\<lambda>(x, g). min (max (float32 (x + float32 (float32 epsilon * sgn g))) 0) 1)
                        (zip (vals sample) (vals sample_grad))"
    by (simp add: out clamp_t_def add_t_f32_def scale_t_f32_def sign_t_def zip_map2 split_def)
  have len: "length (vals out) = length (vals sample)" using eq by (simp add: v)
  have "0 \<le> vals out ! i \<and> vals out ! i \<le> 1
        \<and> \<bar>vals out ! i - vals sample ! i\<bar> \<le> epsilon + 1 / 2 ^ 22"
    if i: "i < length (vals sample)" for i
  proof -
    have x: "0 \<le> vals sample ! i" "vals sample ! i \<le> 1" using assms(1) i by simp_all
    have "vals out ! i = min (max (float32 (vals sample ! i
               + float32 (float32 epsilon * sgn (vals sample_grad ! i)))) 0) 1"
      using i eq by (simp add: v)
    with f32_element_bound[OF x assms(2,3), of "vals sample_grad ! i"] show ?thesis by simp
  qed
  with len show "length (vals out) = length (vals sample)
                \<and> (\<forall>i<length (vals sample).
                      0 \<le> vals out ! i \<and> vals out ! i \<le> 1
                      \<and> \<bar>vals out ! i - vals sample ! i\<bar> \<le> epsilon + 1 / 2 ^ 22)"
    by simp
next
  fix out
  assume "get_fgsm_samples sample epsilon sample_grad = Inr out"
  with assms show "length (vals out) = length (vals sample)
                \<and> (\<forall>i<length (vals sample).
                      0 \<le> vals out ! i \<and> vals out ! i \<le> 1
                      \<and> \<bar>vals out ! i - vals sample ! i\<bar> \<le> epsilon)"
    by (rule fgsm_exact_bounds)
qed

theorem fgsm_output_bounds_rounded_witness:
  "get_fgsm_samples_f32 \<lparr>shape = [2], vals = [0, 1/2]\<rparr> (1/10) \<lparr>shape = [2], vals = [0, 3]\<rparr>
     = Inr \<lparr>shape = [2], vals = [0, 5033165 / 8388608]\<rparr>
   \<and> \<bar>5033165 / 8388608 - 1/2\<bar> \<le> (1/10 + 1 / 2 ^ 22 :: real)
   \<and> get_fgsm_samples \<lparr>shape = [2], vals = [0, 1/2]\<rparr> (1/10) \<lparr>shape = [2], vals = [0, 3]\<rparr>
     = Inr \<lparr>shape = [2], vals = [0, 6/10]\<rparr>
   \<and> \<bar>6/10 - 1/2\<bar> \<le> (1/10 :: real)"
proof -
  let ?s = "\<lparr>shape = [2], vals = [0, 1/2]\<rparr>" and ?g = "\<lparr>shape = [2], vals = [0, 3]\<rparr>"
  have h1: "\<forall>x\<in>set (vals ?s). 0 \<le> x \<and> x \<le> 1" by simp
  have h2: "0 < (1/10::real)" "(1/10::real) \<le> 1" by simp_all
  have h3: "same_shape ?g ?s" by (simp add: same_shape_def)
  have f: "get_fgsm_samples_f32 ?s (1/10) ?g = Inr \<lparr>shape = [2], vals = [0, 5033165 / 8388608]\<rparr>"
    by (simp add: get_fgsm_samples_f32_def torch_min_def torch_max_def sign_t_def
        scale_t_f32_def add_t_f32_def clamp_t_def float32_tenth float32_tenth_again
        float32_sum float32_zero)
  have e: "get_fgsm_samples ?s (1/10) ?g = Inr \<lparr>shape = [2], vals = [0, 6/10]\<rparr>"
    by (simp add: get_fgsm_samples_nonempty clamp_t_def add_t_def scale_t_def sign_t_def)
  show ?thesis
    using fgsm_output_bounds_rounded [OF h1 h2 h3] f e by simp
qed

section \<open>Properties of the aggregation\<close>

lemma sum_list_exp_pos: "xs \<noteq> [] \<Longrightarrow> 0 < sum_list (map exp (xs::real list))"
proof (induction xs)
  case Nil
  then show ?case by simp
next
  case (Cons x xs)
  have "0 \<le> sum_list (map exp xs)" by (rule sum_list_nonneg) auto
  moreover have "0 < exp x" by simp
  ultimately show ?case by (simp add: add_pos_nonneg)
qed

lemma sum_list_divide: "sum_list (map (\<lambda>x. f x / c) xs) = sum_list (map f xs) / (c::real)"
  by (induction xs) (simp_all add: add_divide_distrib)

lemma softmax_row_sum: "xs \<noteq> [] \<Longrightarrow> sum_list (softmax_row xs) = 1"
  using sum_list_exp_pos[of xs] by (simp add: softmax_row_def sum_list_divide)

lemma softmax_row_length: "length (softmax_row xs) = length xs"
  by (simp add: softmax_row_def)

lemma sum_list_map2_add:
  "length xs = length ys \<Longrightarrow> sum_list (map2 (+) xs ys) = sum_list xs + sum_list (ys::real list)"
  by (induction xs ys rule: list_induct2) simp_all

text \<open>On matrices of one shape the addition does not raise and adds element by element.\<close>

lemma all_rows_add_row:
  "length a = length m \<Longrightarrow> \<forall>(p, r)\<in>set (zip a m). length r = length p
   \<Longrightarrow> all_rows (map2 add_row a m) = Inr (map2 (map2 (+)) a m)"
  by (induction a m rule: list_induct2) (simp_all add: add_row_def)

lemma add_m_same_shape:
  assumes "length m = length a" and "\<forall>i<length a. length (m ! i) = length (a ! i)"
  shows "add_m a m = Inr (map2 (map2 (+)) a m)"
proof -
  have "\<forall>(p, r)\<in>set (zip a m). length r = length p"
    using assms by (auto simp: in_set_zip)
  with assms(1) show ?thesis by (simp add: add_m_def all_rows_add_row)
qed

text \<open>One pass of the loop body: adding a matrix whose rows sum to \<open>s\<close>, divided by \<open>c\<close>.\<close>

lemma add_m_rows:
  assumes "length proba = b" "length m = b"
    and "\<forall>i<b. length (proba ! i) = n \<and> sum_list (proba ! i) = t"
    and "\<forall>i<b. length (m ! i) = n \<and> sum_list (m ! i) = s"
  shows "\<exists>r. add_m proba (div_scalar m c) = Inr r \<and> length r = b
           \<and> (\<forall>i<b. length (r ! i) = n \<and> sum_list (r ! i) = t + s / c)"
proof -
  let ?r = "map2 (map2 (+)) proba (div_scalar m c)"
  have "add_m proba (div_scalar m c) = Inr ?r"
    using assms by (intro add_m_same_shape) (simp_all add: div_scalar_def)
  moreover have len: "length ?r = b"
    using assms(1,2) by (simp add: div_scalar_def)
  moreover have "length (?r ! i) = n \<and> sum_list (?r ! i) = t + s / c" if "i < b" for i
  proof -
    have row: "?r ! i = map2 (+) (proba ! i) (map (\<lambda>x. x / c) (m ! i))"
      using that assms(1,2) by (simp add: div_scalar_def)
    have l: "length (proba ! i) = length (map (\<lambda>x. x / c) (m ! i))"
      using that assms(3,4) by simp
    have "sum_list (map (\<lambda>x. x / c) (m ! i)) = s / c"
      using that assms(4) sum_list_divide[of "\<lambda>x. x" c "m ! i"] by simp
    then show ?thesis
      using that assms(3,4) unfolding row by (simp add: sum_list_map2_add[OF l])
  qed
  ultimately show ?thesis by blast
qed

lemma zeros_rows:
  "length (zeros b n) = b \<and> (\<forall>i<b. length (zeros b n ! i) = n \<and> sum_list (zeros b n ! i) = 0)"
  by (simp add: zeros_def sum_list_replicate)

lemma softmax_rows:
  assumes "length m = b" "\<forall>row\<in>set m. length row = n" "0 < n"
  shows "length (softmax m) = b
         \<and> (\<forall>i<b. length (softmax m ! i) = n \<and> sum_list (softmax m ! i) = 1)"
proof -
  have "length (softmax m ! i) = n \<and> sum_list (softmax m ! i) = 1" if "i < b" for i
  proof -
    have "m ! i \<in> set m" using that assms(1) by simp
    then have "length (m ! i) = n" using assms(2) by blast
    then have "m ! i \<noteq> []" using assms(3) by auto
    then show ?thesis
      using that assms(1) \<open>length (m ! i) = n\<close>
      by (simp add: softmax_def softmax_row_sum softmax_row_length)
  qed
  then show ?thesis using assms(1) by (simp add: softmax_def)
qed

text \<open>The loop of the aggregation: after \<open>k\<close> estimators every row sums to \<open>t + k / c\<close>.\<close>

lemma classifier_loop_rows:
  assumes "\<forall>e\<in>set es. length (call env e data) = b \<and> (\<forall>row\<in>set (call env e data). length row = n)"
    and "0 < n"
    and "length proba = b"
    and "\<forall>i<b. length (proba ! i) = n \<and> sum_list (proba ! i) = t"
  shows "\<exists>r. forward_loop (\<lambda>estimator. div_scalar (softmax (call env estimator data)) c) proba es
               = Inr r
           \<and> length r = b
           \<and> (\<forall>i<b. length (r ! i) = n \<and> sum_list (r ! i) = t + real (length es) / c)"
  using assms
proof (induction es arbitrary: proba t)
  case Nil
  then show ?case by simp
next
  case (Cons e es)
  have m: "length (softmax (call env e data)) = b
           \<and> (\<forall>i<b. length (softmax (call env e data) ! i) = n
                     \<and> sum_list (softmax (call env e data) ! i) = 1)"
    using Cons.prems(1,2) by (intro softmax_rows) simp_all
  from add_m_rows[OF Cons.prems(3) _ Cons.prems(4), of "softmax (call env e data)" 1 c] m
  obtain p where p: "add_m proba (div_scalar (softmax (call env e data)) c) = Inr p"
    "length p = b" "\<forall>i<b. length (p ! i) = n \<and> sum_list (p ! i) = t + 1 / c"
    by blast
  have "\<forall>e\<in>set es. length (call env e data) = b \<and> (\<forall>row\<in>set (call env e data). length row = n)"
    using Cons.prems(1) by simp
  from Cons.IH[OF this Cons.prems(2) p(2,3)] p(1)
  show ?case by (simp add: add_divide_distrib algebra_simps)
qed

text \<open>
  Claim C8. For every batch with a first dimension of size \<open>batch_size\<close>, an ensemble of
  \<open>n_estimators\<close> (at least one) estimators, each of which answers with \<open>batch_size\<close> rows of
  \<open>n_outputs\<close> (at least one) columns: the aggregated output of the classifier exists, has
  \<open>batch_size\<close> rows of \<open>n_outputs\<close> columns, and every row sums to 1. This is the loop of
  \<open>forward\<close> (with \<open>estimators\<close> the committed \<open>self.estimators_\<close>) and of \<open>_forward\<close> in \<open>fit\<close>.
\<close>

theorem classifier_rows_sum_to_one:
  assumes "size_t data 0 = Inr batch_size"
    and "length estimators = n_estimators self" and "0 < n_estimators self"
    and "0 < n_outputs self"
    and "\<forall>e\<in>set estimators. length (call env e data) = batch_size
           \<and> (\<forall>row\<in>set (call env e data). length row = n_outputs self)"
  shows "\<exists>proba. classifier_forward_on env self estimators data = Inr proba
           \<and> length proba = batch_size
           \<and> (\<forall>row\<in>set proba. length row = n_outputs self \<and> sum_list row = 1)"
proof -
  have z: "length (zeros batch_size (n_outputs self)) = batch_size" 
    "\<forall>i<batch_size. length (zeros batch_size (n_outputs self) ! i) = n_outputs self
       \<and> sum_list (zeros batch_size (n_outputs self) ! i) = 0"
    using zeros_rows by simp_all
  from classifier_loop_rows[OF assms(5) assms(4) z, of "real (n_estimators self)"]
  obtain r where r: "forward_loop (\<lambda>estimator. div_scalar (softmax (call env estimator data))
                                     (real (n_estimators self)))
                       (zeros batch_size (n_outputs self)) estimators = Inr r"
    "length r = batch_size"
    "\<forall>i<batch_size. length (r ! i) = n_outputs self
        \<and> sum_list (r ! i) = 0 + real (length estimators) / real (n_estimators self)"
    by blast
  have eq: "classifier_forward_on env self estimators data = Inr r"
    using assms(1) r(1) by (simp add: classifier_forward_on_def)
  have "length row = n_outputs self \<and> sum_list row = 1" if "row \<in> set r" for row
  proof -
    from that obtain i where "i < length r" "row = r ! i" by (auto simp: in_set_conv_nth)
    then show ?thesis using r(2,3) assms(2,3) by simp
  qed
  with eq r(2) show ?thesis by blast
qed

section \<open>Evaluation on the small inputs\<close>

lemma toy_fit_one: "fit_batches toy_classifier (1/2) crit (e, ()) (batches toy_train) = Inr (e + 1, ())"
  by (simp add: toy_classifier_def toy_train_def size_t_def get_fgsm_samples_def torch_min_def torch_max_def)

lemma toy_task:
  "parallel_fit_per_epoch toy_classifier toy_train lr wd epoch opt (1/2) li idx e crit cls
     = ([Made_optimizer epoch idx], Inr (e + 1))"
  by (simp add: parallel_fit_per_epoch_def toy_fit_one)

lemma toy_dispatch:
  "dispatch_epoch toy_classifier toy_train lr wd epoch opt (1/2) li [e] crit cls
     = ([Made_optimizer epoch 0], Inr [e + 1])"
  by (simp add: dispatch_epoch_def toy_task)

lemma softmax_ln2: "softmax_row [0, ln 2] = [1/3, 2/3]" "softmax_row [ln 2, 0] = [2/3, 1/3]"
  by (simp_all add: softmax_row_def)

lemma argmax_thirds: "argmax_row [1/3, 2/3] = Inr 1" "argmax_row [2/3, 1/3] = Inr 0"
  by (simp_all add: argmax_row_def)

lemma replicate_numeral: "replicate (numeral k) x = x # replicate (pred_numeral k) x"
  by (simp add: numeral_eq_Suc)

lemma toy_acc_1:
  "n_estimators self = 1 \<Longrightarrow> n_outputs self = 2
   \<Longrightarrow> validation_acc toy_classifier self [1] toy_test = Inr 60"
  by (simp add: validation_acc_def toy_test_def classifier_forward_on_def toy_classifier_def softmax_def softmax_ln2 zeros_def add_m_def add_row_def div_scalar_def argmax_thirds count_equal_def size_t_def replicate_numeral)

lemma toy_acc_2:
  "n_estimators self = 1 \<Longrightarrow> n_outputs self = 2
   \<Longrightarrow> validation_acc toy_classifier self [2] toy_test = Inr 55"
  by (simp add: validation_acc_def toy_test_def classifier_forward_on_def toy_classifier_def softmax_def softmax_ln2 zeros_def add_m_def add_row_def div_scalar_def argmax_thirds count_equal_def size_t_def replicate_numeral)

lemma toy_in_place: "in_place toy_classifier" "in_place toy_regressor"
  by (simp_all add: toy_classifier_def toy_regressor_def)

lemma toy_decide: "decide_n_outputs toy_train True = Inr 2"
  by (simp add: decide_n_outputs_def toy_train_def torch_cat_def torch_unique_def size_t_def)

lemma toy_epoch_0:
  "classifier_epoch toy_classifier toy_train lr wd opt (1/2) li (Some toy_test) True 0
     \<lparr>cur_self = \<lparr>n_estimators = Suc 0, n_outputs = 2, self_estimators = [], trace = [Made_estimator]\<rparr>,
      cur_estimators = [0], cur_best = 0, cur_shared = False\<rparr>
   = Inr \<lparr>cur_self = \<lparr>n_estimators = Suc 0, n_outputs = 2, self_estimators = [1],
                       trace = [Made_estimator, Made_optimizer 0 0, Saved [1]]\<rparr>,
          cur_estimators = [1], cur_best = 60, cur_shared = True\<rparr>"
proof -
  have "batches toy_test \<noteq> []" by (simp add: toy_test_def)
  then show ?thesis
    by (simp add: classifier_epoch_def toy_dispatch record_events_def toy_acc_1 select_acc_def io_save_def Let_def share_training_def toy_in_place)
qed

lemma toy_epoch_1:
  "classifier_epoch toy_classifier toy_train lr wd opt (1/2) li (Some toy_test) True (Suc 0)
     \<lparr>cur_self = \<lparr>n_estimators = Suc 0, n_outputs = 2, self_estimators = [1],
                       trace = [Made_estimator, Made_optimizer 0 0, Saved [1]]\<rparr>,
          cur_estimators = [1], cur_best = 60, cur_shared = True\<rparr>
   = Inr \<lparr>cur_self = \<lparr>n_estimators = Suc 0, n_outputs = 2, self_estimators = [2],
                       trace = [Made_estimator, Made_optimizer 0 0, Saved [1], Made_optimizer (Suc 0) 0]\<rparr>,
          cur_estimators = [2], cur_best = 60, cur_shared = True\<rparr>"
proof -
  have "batches toy_test \<noteq> []" by (simp add: toy_test_def)
  then show ?thesis
    using toy_dispatch[of lr wd "Suc 0" opt li 1 CrossEntropyLoss True]
    by (simp add: classifier_epoch_def record_events_def toy_acc_2 select_acc_def io_save_def Let_def share_training_def toy_in_place)
qed

lemma toy_regressor_fit_batches:
  "fit_batches toy_regressor (1/2) crit (e, ()) (batches toy_targets) = Inr (e + 1, ())"
  "fit_batches toy_regressor (1/2) crit (e, ()) (batches toy_constant) = Inr (e + 1, ())"
  by (simp_all add: toy_regressor_def toy_targets_def toy_constant_def size_t_def
      get_fgsm_samples_def torch_min_def torch_max_def)

lemma toy_regressor_dispatch:
  "dispatch_epoch toy_regressor toy_targets lr wd epoch opt (1/2) li [e] crit cls
     = ([Made_optimizer epoch 0], Inr [e + 1])"
  "dispatch_epoch toy_regressor toy_constant lr wd epoch opt (1/2) li [e] crit cls
     = ([Made_optimizer epoch 0], Inr [e + 1])"
  by (simp_all add: dispatch_epoch_def parallel_fit_per_epoch_def toy_regressor_fit_batches)

lemma toy_targets_decide:
  "decide_n_outputs toy_targets True = Inr 4" "decide_n_outputs toy_targets False = Inr 1"
  by (simp_all add: decide_n_outputs_def toy_targets_def torch_cat_def torch_unique_def size_t_def)

lemma toy_mse:
  "n_estimators self = 1 \<Longrightarrow> n_outputs self = 1
   \<Longrightarrow> validation_mse toy_regressor self [e] toy_holdout = Inr ((real_of_int e - 2)\<^sup>2)"
  by (simp add: validation_mse_def toy_holdout_def regressor_forward_on_def size_t_def
      toy_regressor_def zeros_def add_m_def add_row_def div_scalar_def)

lemma toy_regressor_epoch_0:
  "regressor_epoch toy_regressor toy_constant lr wd opt (1/2) li (Some toy_holdout) True 0
     \<lparr>cur_self = \<lparr>n_estimators = Suc 0, n_outputs = Suc 0, self_estimators = [],
                  trace = [Made_estimator]\<rparr>,
      cur_estimators = [0], cur_best = Infinity, cur_shared = False\<rparr>
   = Inr \<lparr>cur_self = \<lparr>n_estimators = Suc 0, n_outputs = Suc 0, self_estimators = [1],
                       trace = [Made_estimator, Made_optimizer 0 0, Saved [1]]\<rparr>,
          cur_estimators = [1], cur_best = Finite 1, cur_shared = True\<rparr>"
proof -
  have "batches toy_holdout \<noteq> []" by (simp add: toy_holdout_def)
  then show ?thesis
    by (simp add: regressor_epoch_def toy_regressor_dispatch record_events_def toy_mse
        select_mse_def io_save_def Let_def share_training_def toy_in_place)
qed

lemma toy_regressor_epoch_1:
  "regressor_epoch toy_regressor toy_constant lr wd opt (1/2) li (Some toy_holdout) True (Suc 0)
     \<lparr>cur_self = \<lparr>n_estimators = Suc 0, n_outputs = Suc 0, self_estimators = [1],
                       trace = [Made_estimator, Made_optimizer 0 0, Saved [1]]\<rparr>,
          cur_estimators = [1], cur_best = Finite 1, cur_shared = True\<rparr>
   = Inr \<lparr>cur_self = \<lparr>n_estimators = Suc 0, n_outputs = Suc 0, self_estimators = [2],
                       trace = [Made_estimator, Made_optimizer 0 0, Saved [1],
                                Made_optimizer (Suc 0) 0, Saved [2]]\<rparr>,
          cur_estimators = [2], cur_best = Finite 0, cur_shared = True\<rparr>"
proof -
  have "batches toy_holdout \<noteq> []" by (simp add: toy_holdout_def)
  then show ?thesis
    using toy_regressor_dispatch(2)[of lr wd "Suc 0" opt li 1 MSELoss False]
    by (simp add: regressor_epoch_def record_events_def toy_mse
        select_mse_def io_save_def Let_def share_training_def toy_in_place)
qed

theorem classifier_rows_sum_to_one_witness:
  "classifier_forward_on toy_classifier
       \<lparr>n_estimators = 2, n_outputs = 2, self_estimators = [], trace = []\<rparr> [1, 2]
       \<lparr>shape = [2, 1], vals = [0, 1]\<rparr>
     = Inr [[1/2, 1/2], [1/3, 2/3]]
   \<and> sum_list [1/2, 1/2 :: real] = 1 \<and> sum_list [1/3, 2/3 :: real] = 1"
proof -
  let ?self = "\<lparr>n_estimators = 2, n_outputs = 2, self_estimators = [], trace = []\<rparr> :: int ensemble"
  let ?data = "\<lparr>shape = [2, 1], vals = [0, 1]\<rparr>"
  have h1: "size_t ?data 0 = Inr 2" by (simp add: size_t_def)
  have h2: "length [1, 2 :: int] = n_estimators ?self" by simp
  have h3: "0 < n_estimators ?self" "0 < n_outputs ?self" by simp_all
  have h4: "\<forall>e\<in>set [1, 2]. length (call toy_classifier e ?data) = 2
              \<and> (\<forall>row\<in>set (call toy_classifier e ?data). length row = n_outputs ?self)"
    by (simp add: toy_classifier_def)
  have "classifier_forward_on toy_classifier ?self [1, 2] ?data = Inr [[1/2, 1/2], [1/3, 2/3]]"
    by (simp add: classifier_forward_on_def size_t_def toy_classifier_def softmax_def
        softmax_ln2 zeros_def add_m_def add_row_def div_scalar_def replicate_numeral)
  then show ?thesis
    using classifier_rows_sum_to_one [OF h1 h2 h3 h4] by simp
qed

section \<open>Properties of the training loop\<close>

lemma for_epochs_append:
  "for_epochs body (xs @ ys) st =
     (case for_epochs body xs st of Inl x \<Rightarrow> Inl x | Inr st' \<Rightarrow> for_epochs body ys st')"
  by (induction xs arbitrary: st) (simp_all split: sum.splits)

lemma for_epochs_prefix:
  assumes "j \<le> k" and "for_epochs body [0..<k] st = Inr s2"
  shows "\<exists>s1. for_epochs body [0..<j] st = Inr s1 \<and> for_epochs body [j..<k] s1 = Inr s2"
proof -
  from assms(1) obtain d where k: "k = j + d" by (auto simp: le_iff_add)
  have "[0..<k] = [0..<j] @ [j..<k]" unfolding k by (rule upt_add_eq_append) simp
  then have "for_epochs body ([0..<j] @ [j..<k]) st = Inr s2" using assms(2) by (simp only:)
  then show ?thesis by (cases "for_epochs body [0..<j] st") (simp_all add: for_epochs_append)
qed

lemma select_acc_best: "best_acc \<le> cur_best (select_acc save_model self rets shared best_acc acc)"
  by (simp add: select_acc_def)

lemma classifier_epoch_Inr:
  assumes "classifier_epoch env train_loader lr weight_decay optimizer epsilon log_interval
             test_loader save_model epoch st = Inr st'"
  shows "\<exists>evs rets.
           dispatch_epoch env train_loader lr weight_decay epoch optimizer epsilon log_interval
             (cur_estimators st) CrossEntropyLoss True = (evs, Inr rets)
           \<and> (st' = \<lparr>cur_self = record_events evs (share_training env (cur_shared st) rets (cur_self st)), cur_estimators = rets,
                     cur_best = cur_best st, cur_shared = cur_shared st\<rparr>
              \<or> (\<exists>acc. st' = select_acc save_model (record_events evs (share_training env (cur_shared st) rets (cur_self st))) rets (cur_shared st)
                                 (cur_best st) acc))"
proof -
  obtain evs r where d: "dispatch_epoch env train_loader lr weight_decay epoch optimizer epsilon
      log_interval (cur_estimators st) CrossEntropyLoss True = (evs, r)"
    by (cases "dispatch_epoch env train_loader lr weight_decay epoch optimizer epsilon
      log_interval (cur_estimators st) CrossEntropyLoss True")
  show ?thesis
  proof (cases r)
    case (Inl e)
    with assms d show ?thesis by (simp add: classifier_epoch_def)
  next
    case (Inr rets)
    with assms d show ?thesis
      by (auto simp: classifier_epoch_def Let_def split: option.splits if_splits sum.splits)
  qed
qed

lemma classifier_epoch_best:
  "classifier_epoch env train_loader lr weight_decay optimizer epsilon log_interval test_loader
     save_model epoch st = Inr st' \<Longrightarrow> cur_best st \<le> cur_best st'"
proof -
  assume "classifier_epoch env train_loader lr weight_decay optimizer epsilon log_interval
            test_loader save_model epoch st = Inr st'"
  from classifier_epoch_Inr[OF this] obtain evs rets where
    "st' = \<lparr>cur_self = record_events evs (share_training env (cur_shared st) rets (cur_self st)), cur_estimators = rets,
                     cur_best = cur_best st, cur_shared = cur_shared st\<rparr>
     \<or> (\<exists>acc. st' = select_acc save_model (record_events evs (share_training env (cur_shared st) rets (cur_self st))) rets (cur_shared st)
                                 (cur_best st) acc)" by blast
  then show ?thesis
  proof
    assume "st' = \<lparr>cur_self = record_events evs (share_training env (cur_shared st) rets (cur_self st)), cur_estimators = rets,
                     cur_best = cur_best st, cur_shared = cur_shared st\<rparr>"
    then show ?thesis by simp
  next
    assume "\<exists>acc. st' = select_acc save_model (record_events evs (share_training env (cur_shared st) rets (cur_self st))) rets (cur_shared st)
                                 (cur_best st) acc"
    then show ?thesis using select_acc_best by blast
  qed
qed

lemma best_mse_le_refl: "best_mse_le a a"
  by (cases a) simp_all

lemma best_mse_le_trans: "best_mse_le a b \<Longrightarrow> best_mse_le b c \<Longrightarrow> best_mse_le a c"
  by (cases a; cases b; cases c) simp_all

lemma select_mse_best: "best_mse_le (cur_best (select_mse save_model self rets shared best mse)) best"
  by (cases best) (simp_all add: select_mse_def best_mse_le_refl)

lemma regressor_epoch_Inr:
  assumes "regressor_epoch env train_loader lr weight_decay optimizer epsilon log_interval
             test_loader save_model epoch st = Inr st'"
  shows "\<exists>evs rets.
           dispatch_epoch env train_loader lr weight_decay epoch optimizer epsilon log_interval
             (cur_estimators st) MSELoss False = (evs, Inr rets)
           \<and> (st' = \<lparr>cur_self = record_events evs (share_training env (cur_shared st) rets (cur_self st)), cur_estimators = rets,
                     cur_best = cur_best st, cur_shared = cur_shared st\<rparr>
              \<or> (\<exists>mse. st' = select_mse save_model (record_events evs (share_training env (cur_shared st) rets (cur_self st))) rets (cur_shared st)
                                 (cur_best st) mse))"
proof -
  obtain evs r where d: "dispatch_epoch env train_loader lr weight_decay epoch optimizer epsilon
      log_interval (cur_estimators st) MSELoss False = (evs, r)"
    by (cases "dispatch_epoch env train_loader lr weight_decay epoch optimizer epsilon
      log_interval (cur_estimators st) MSELoss False")
  show ?thesis
  proof (cases r)
    case (Inl e)
    with assms d show ?thesis by (simp add: regressor_epoch_def)
  next
    case (Inr rets)
    with assms d show ?thesis
      by (auto simp: regressor_epoch_def Let_def split: option.splits if_splits sum.splits)
  qed
qed

lemma regressor_epoch_best:
  "regressor_epoch env train_loader lr weight_decay optimizer epsilon log_interval test_loader
     save_model epoch st = Inr st' \<Longrightarrow> best_mse_le (cur_best st') (cur_best st)"
proof -
  assume "regressor_epoch env train_loader lr weight_decay optimizer epsilon log_interval
            test_loader save_model epoch st = Inr st'"
  from regressor_epoch_Inr[OF this] obtain evs rets where
    "st' = \<lparr>cur_self = record_events evs (share_training env (cur_shared st) rets (cur_self st)), cur_estimators = rets,
                     cur_best = cur_best st, cur_shared = cur_shared st\<rparr>
     \<or> (\<exists>mse. st' = select_mse save_model (record_events evs (share_training env (cur_shared st) rets (cur_self st))) rets (cur_shared st)
                                 (cur_best st) mse)" by blast
  then show ?thesis
  proof
    assume "st' = \<lparr>cur_self = record_events evs (share_training env (cur_shared st) rets (cur_self st)), cur_estimators = rets,
                     cur_best = cur_best st, cur_shared = cur_shared st\<rparr>"
    then show ?thesis by (simp add: best_mse_le_refl)
  next
    assume "\<exists>mse. st' = select_mse save_model (record_events evs (share_training env (cur_shared st) rets (cur_self st))) rets (cur_shared st)
                                 (cur_best st) mse"
    then show ?thesis using select_mse_best by blast
  qed
qed

lemma classifier_epochs_best:
  "for_epochs (classifier_epoch env train_loader lr weight_decay optimizer epsilon
                 log_interval test_loader save_model) es s = Inr s'
   \<Longrightarrow> cur_best s \<le> cur_best s'"
proof (induction es arbitrary: s)
  case Nil
  then show ?case by simp
next
  case (Cons epoch es)
  then obtain m where m: "classifier_epoch env train_loader lr weight_decay optimizer epsilon
        log_interval test_loader save_model epoch s = Inr m"
    and rest: "for_epochs (classifier_epoch env train_loader lr weight_decay optimizer epsilon
                 log_interval test_loader save_model) es m = Inr s'"
    by (auto split: sum.splits)
  from classifier_epoch_best[OF m] Cons.IH[OF rest] show ?case by simp
qed

lemma regressor_epochs_best:
  "for_epochs (regressor_epoch env train_loader lr weight_decay optimizer epsilon
                 log_interval test_loader save_model) es s = Inr s'
   \<Longrightarrow> best_mse_le (cur_best s') (cur_best s)"
proof (induction es arbitrary: s)
  case Nil
  then show ?case by (simp add: best_mse_le_refl)
next
  case (Cons epoch es)
  then obtain m where m: "regressor_epoch env train_loader lr weight_decay optimizer epsilon
        log_interval test_loader save_model epoch s = Inr m"
    and rest: "for_epochs (regressor_epoch env train_loader lr weight_decay optimizer epsilon
                 log_interval test_loader save_model) es m = Inr s'"
    by (auto split: sum.splits)
  from Cons.IH[OF rest] regressor_epoch_best[OF m] show ?case by (rule best_mse_le_trans)
qed

text \<open>
  Claim C7. The best metric is monotone across the epochs of one training loop, from any
  starting state: when the loop has run \<open>j\<close> epochs and, continuing, \<open>k \<ge> j\<close> epochs, the best
  accuracy of the classifier after \<open>k\<close> epochs is at least the one after \<open>j\<close> epochs, and the
  best mean squared error of the regressor after \<open>k\<close> epochs is at most the one after \<open>j\<close>
  epochs.
\<close>

theorem best_metric_monotone:
  "(j \<le> k
      \<and> for_epochs (classifier_epoch env train_loader lr weight_decay optimizer epsilon
                       log_interval test_loader save_model) [0..<j] c0 = Inr c1
      \<and> for_epochs (classifier_epoch env train_loader lr weight_decay optimizer epsilon
                       log_interval test_loader save_model) [0..<k] c0 = Inr c2
      \<longrightarrow> cur_best c1 \<le> cur_best c2)
   \<and> (j \<le> k
      \<and> for_epochs (regressor_epoch env train_loader lr weight_decay optimizer epsilon
                       log_interval test_loader save_model) [0..<j] r0 = Inr r1
      \<and> for_epochs (regressor_epoch env train_loader lr weight_decay optimizer epsilon
                       log_interval test_loader save_model) [0..<k] r0 = Inr r2
      \<longrightarrow> best_mse_le (cur_best r2) (cur_best r1))"
proof (intro conjI impI)
  let ?body = "classifier_epoch env train_loader lr weight_decay optimizer epsilon
                 log_interval test_loader save_model"
  assume a: "j \<le> k \<and> for_epochs ?body [0..<j] c0 = Inr c1 \<and> for_epochs ?body [0..<k] c0 = Inr c2"
  with for_epochs_prefix[of j k ?body c0 c2] have "for_epochs ?body [j..<k] c1 = Inr c2" by auto
  then show "cur_best c1 \<le> cur_best c2" by (rule classifier_epochs_best)
next
  let ?body = "regressor_epoch env train_loader lr weight_decay optimizer epsilon
                 log_interval test_loader save_model"
  assume a: "j \<le> k \<and> for_epochs ?body [0..<j] r0 = Inr r1 \<and> for_epochs ?body [0..<k] r0 = Inr r2"
  with for_epochs_prefix[of j k ?body r0 r2] have "for_epochs ?body [j..<k] r1 = Inr r2" by auto
  then show "best_mse_le (cur_best r2) (cur_best r1)" by (rule regressor_epochs_best)
qed

theorem best_metric_monotone_witness:
  "for_epochs (classifier_epoch toy_classifier toy_train (1/1000) 0 ''Adam'' (1/2) 100
                 (Some toy_test) True) [0..<1]
       \<lparr>cur_self = \<lparr>n_estimators = 1, n_outputs = 2, self_estimators = [],
                    trace = [Made_estimator]\<rparr>,
        cur_estimators = [0], cur_best = 0, cur_shared = False\<rparr>
     = Inr \<lparr>cur_self = \<lparr>n_estimators = 1, n_outputs = 2, self_estimators = [1],
                         trace = [Made_estimator, Made_optimizer 0 0, Saved [1]]\<rparr>,
            cur_estimators = [1], cur_best = 60, cur_shared = True\<rparr>
   \<and> for_epochs (classifier_epoch toy_classifier toy_train (1/1000) 0 ''Adam'' (1/2) 100
                 (Some toy_test) True) [0..<2]
       \<lparr>cur_self = \<lparr>n_estimators = 1, n_outputs = 2, self_estimators = [],
                    trace = [Made_estimator]\<rparr>,
        cur_estimators = [0], cur_best = 0, cur_shared = False\<rparr>
     = Inr \<lparr>cur_self = \<lparr>n_estimators = 1, n_outputs = 2, self_estimators = [2],
                         trace = [Made_estimator, Made_optimizer 0 0, Saved [1],
                                  Made_optimizer 1 0]\<rparr>,
            cur_estimators = [2], cur_best = 60, cur_shared = True\<rparr>
   \<and> (60::real) \<le> 60
   \<and> for_epochs (regressor_epoch toy_regressor toy_constant (1/1000) 0 ''Adam'' (1/2) 100
                 (Some toy_holdout) True) [0..<1]
       \<lparr>cur_self = \<lparr>n_estimators = 1, n_outputs = 1, self_estimators = [],
                    trace = [Made_estimator]\<rparr>,
        cur_estimators = [0], cur_best = Infinity, cur_shared = False\<rparr>
     = Inr \<lparr>cur_self = \<lparr>n_estimators = 1, n_outputs = 1, self_estimators = [1],
                       trace = [Made_estimator, Made_optimizer 0 0, Saved [1]]\<rparr>,
          cur_estimators = [1], cur_best = Finite 1, cur_shared = True\<rparr>
   \<and> for_epochs (regressor_epoch toy_regressor toy_constant (1/1000) 0 ''Adam'' (1/2) 100
                 (Some toy_holdout) True) [0..<2]
       \<lparr>cur_self = \<lparr>n_estimators = 1, n_outputs = 1, self_estimators = [],
                    trace = [Made_estimator]\<rparr>,
        cur_estimators = [0], cur_best = Infinity, cur_shared = False\<rparr>
     = Inr \<lparr>cur_self = \<lparr>n_estimators = 1, n_outputs = 1, self_estimators = [2],
                       trace = [Made_estimator, Made_optimizer 0 0, Saved [1],
                                Made_optimizer 1 0, Saved [2]]\<rparr>,
          cur_estimators = [2], cur_best = Finite 0, cur_shared = True\<rparr>
   \<and> best_mse_le (Finite 0) (Finite 1)"
proof -
  have u: "[0..<1] = [0]" "[0..<2] = [0, Suc 0]" by (simp_all add: upt_rec)
  show ?thesis
    using best_metric_monotone [of 1 2 toy_classifier toy_train "1/1000" 0 "''Adam''" "1/2" 100
        "Some toy_test" True
        "\<lparr>cur_self = \<lparr>n_estimators = 1, n_outputs = 2, self_estimators = [],
                    trace = [Made_estimator]\<rparr>,
        cur_estimators = [0], cur_best = 0, cur_shared = False\<rparr>"
        "\<lparr>cur_self = \<lparr>n_estimators = 1, n_outputs = 2, self_estimators = [1],
                         trace = [Made_estimator, Made_optimizer 0 0, Saved [1]]\<rparr>,
            cur_estimators = [1], cur_best = 60, cur_shared = True\<rparr>"
        "\<lparr>cur_self = \<lparr>n_estimators = 1, n_outputs = 2, self_estimators = [2],
                         trace = [Made_estimator, Made_optimizer 0 0, Saved [1],
                                  Made_optimizer 1 0]\<rparr>,
            cur_estimators = [2], cur_best = 60, cur_shared = True\<rparr>"]
      best_metric_monotone [of 1 2 toy_regressor toy_constant "1/1000" 0 "''Adam''" "1/2" 100
        "Some toy_holdout" True _ _ _
        "\<lparr>cur_self = \<lparr>n_estimators = 1, n_outputs = 1, self_estimators = [],
                    trace = [Made_estimator]\<rparr>,
        cur_estimators = [0], cur_best = Infinity, cur_shared = False\<rparr>"
        "\<lparr>cur_self = \<lparr>n_estimators = 1, n_outputs = 1, self_estimators = [1],
                       trace = [Made_estimator, Made_optimizer 0 0, Saved [1]]\<rparr>,
          cur_estimators = [1], cur_best = Finite 1, cur_shared = True\<rparr>"
        "\<lparr>cur_self = \<lparr>n_estimators = 1, n_outputs = 1, self_estimators = [2],
                       trace = [Made_estimator, Made_optimizer 0 0, Saved [1],
                                Made_optimizer 1 0, Saved [2]]\<rparr>,
          cur_estimators = [2], cur_best = Finite 0, cur_shared = True\<rparr>"]
    by (simp add: u toy_epoch_0 toy_epoch_1 toy_regressor_epoch_0 toy_regressor_epoch_1)
qed

text \<open>A dispatch that returns leaves the objects in the states it returns.\<close>

lemma dispatch_reached_returned:
  "parallel (\<lambda>(idx, estimator).
               parallel_fit_per_epoch env train_loader lr weight_decay epoch optimizer epsilon
                 log_interval idx estimator crit is_classification)
            (enumerate k estimators) = (evs, Inr rets)
   \<Longrightarrow> dispatch_reached env train_loader lr weight_decay optimizer epsilon crit estimators = rets"
proof (induction estimators arbitrary: k evs rets)
  case Nil
  then show ?case by simp
next
  case (Cons estimator rest)
  let ?task = "\<lambda>(idx, estimator).
               parallel_fit_per_epoch env train_loader lr weight_decay epoch optimizer epsilon
                 log_interval idx estimator crit is_classification"
  from Cons.prems obtain e1 trained e2 rets' where
    t: "?task (k, estimator) = (e1, Inr trained)"
    and r: "parallel ?task (enumerate (Suc k) rest) = (e2, Inr rets')"
    and rets: "rets = trained # rets'"
    by (auto split: prod.splits sum.splits)
  from t obtain opt where
    "fit_batches env epsilon crit
       (estimator, set_optimizer env estimator optimizer lr weight_decay)
       (batches train_loader) = Inr (trained, opt)"
    by (auto simp: parallel_fit_per_epoch_def split: sum.splits)
  with Cons.IH[OF r] rets show ?case by simp
qed

lemma dispatch_epoch_reached:
  "dispatch_epoch env train_loader lr weight_decay epoch optimizer epsilon log_interval
     estimators crit is_classification = (evs, Inr rets)
   \<Longrightarrow> dispatch_reached env train_loader lr weight_decay optimizer epsilon crit estimators = rets"
  unfolding dispatch_epoch_def by (rule dispatch_reached_returned)

lemma classifier_epoch_validated:
  assumes "classifier_epoch env train_loader lr weight_decay optimizer epsilon log_interval
             (Some l) save_model epoch st = Inr st'"
    and "batches l \<noteq> []"
  shows "\<exists>evs rets acc.
           dispatch_epoch env train_loader lr weight_decay epoch optimizer epsilon log_interval
             (cur_estimators st) CrossEntropyLoss True = (evs, Inr rets)
           \<and> validation_acc env (record_events evs (share_training env (cur_shared st) rets (cur_self st))) rets l = Inr acc
           \<and> st' = select_acc save_model (record_events evs (share_training env (cur_shared st) rets (cur_self st))) rets (cur_shared st) (cur_best st) acc"
proof -
  obtain evs r where d: "dispatch_epoch env train_loader lr weight_decay epoch optimizer epsilon
      log_interval (cur_estimators st) CrossEntropyLoss True = (evs, r)"
    by (cases "dispatch_epoch env train_loader lr weight_decay epoch optimizer epsilon
      log_interval (cur_estimators st) CrossEntropyLoss True")
  show ?thesis
  proof (cases r)
    case (Inl e)
    with assms d show ?thesis by (simp add: classifier_epoch_def)
  next
    case (Inr rets)
    with assms d show ?thesis
      by (cases "validation_acc env (record_events evs (share_training env (cur_shared st) rets (cur_self st))) rets l")
         (simp_all add: classifier_epoch_def Let_def)
  qed
qed

lemma regressor_epoch_validated:
  assumes "regressor_epoch env train_loader lr weight_decay optimizer epsilon log_interval
             (Some l) save_model epoch st = Inr st'"
    and "batches l \<noteq> []"
  shows "\<exists>evs rets mse.
           dispatch_epoch env train_loader lr weight_decay epoch optimizer epsilon log_interval
             (cur_estimators st) MSELoss False = (evs, Inr rets)
           \<and> validation_mse env (record_events evs (share_training env (cur_shared st) rets (cur_self st))) rets l = Inr mse
           \<and> st' = select_mse save_model (record_events evs (share_training env (cur_shared st) rets (cur_self st))) rets (cur_shared st) (cur_best st) mse"
proof -
  obtain evs r where d: "dispatch_epoch env train_loader lr weight_decay epoch optimizer epsilon
      log_interval (cur_estimators st) MSELoss False = (evs, r)"
    by (cases "dispatch_epoch env train_loader lr weight_decay epoch optimizer epsilon
      log_interval (cur_estimators st) MSELoss False")
  show ?thesis
  proof (cases r)
    case (Inl e)
    with assms d show ?thesis by (simp add: regressor_epoch_def)
  next
    case (Inr rets)
    with assms d show ?thesis
      by (cases "validation_mse env (record_events evs (share_training env (cur_shared st) rets (cur_self st))) rets l")
         (simp_all add: regressor_epoch_def Let_def)
  qed
qed

lemma classifier_fit_Inr:
  assumes "classifier_fit env self train_loader lr weight_decay epochs optimizer epsilon
             log_interval test_loader save_model = Inr self'"
  shows "\<exists>n st. decide_n_outputs train_loader True = Inr n
           \<and> for_epochs (classifier_epoch env train_loader lr weight_decay optimizer epsilon
                            log_interval test_loader save_model) [0..<nat epochs]
                 \<lparr>cur_self = (snd (make_estimators env self))\<lparr>n_outputs := n\<rparr>,
                  cur_estimators = fst (make_estimators env self),
                  cur_best = 0, cur_shared = False\<rparr> = Inr st
           \<and> self_estimators self' = cur_estimators st
           \<and> trace self' = trace (cur_self st)
                 @ (if save_model \<and> \<not> given test_loader then [Saved (cur_estimators st)]
                    else [])"
proof -
  obtain estimators self1 where m: "make_estimators env self = (estimators, self1)"
    by (cases "make_estimators env self")
  from assms m obtain u where v: "validate_parameters lr weight_decay epochs epsilon log_interval = Inr u"
    by (cases "validate_parameters lr weight_decay epochs epsilon log_interval")
       (simp_all add: classifier_fit_def)
  from assms m v obtain n where n: "decide_n_outputs train_loader True = Inr n"
    by (cases "decide_n_outputs train_loader True") (simp_all add: classifier_fit_def)
  let ?loop = "for_epochs (classifier_epoch env train_loader lr weight_decay optimizer epsilon
                            log_interval test_loader save_model) [0..<nat epochs]
                 \<lparr>cur_self = self1\<lparr>n_outputs := n\<rparr>, cur_estimators = estimators, cur_best = 0, cur_shared = False\<rparr>"
  from assms m v n obtain st where st: "?loop = Inr st"
    by (cases ?loop) (simp_all add: classifier_fit_def)
  from assms m v n st have "self_estimators self' = cur_estimators st
      \<and> trace self' = trace (cur_self st)
            @ (if save_model \<and> \<not> given test_loader then [Saved (cur_estimators st)] else [])"
    by (auto simp: classifier_fit_def Let_def io_save_def record_events_def split: if_splits)
  with n st m show ?thesis by simp
qed

lemma regressor_fit_Inr:
  assumes "regressor_fit env self train_loader lr weight_decay epochs optimizer epsilon
             log_interval test_loader save_model = Inr self'"
  shows "\<exists>n st. decide_n_outputs train_loader True = Inr n
           \<and> for_epochs (regressor_epoch env train_loader lr weight_decay optimizer epsilon
                            log_interval test_loader save_model) [0..<nat epochs]
                 \<lparr>cur_self = (snd (make_estimators env self))\<lparr>n_outputs := n\<rparr>,
                  cur_estimators = fst (make_estimators env self),
                  cur_best = Infinity, cur_shared = False\<rparr> = Inr st
           \<and> self_estimators self' = cur_estimators st
           \<and> trace self' = trace (cur_self st)
                 @ (if save_model \<and> \<not> given test_loader then [Saved (cur_estimators st)]
                    else [])"
proof -
  obtain estimators self1 where m: "make_estimators env self = (estimators, self1)"
    by (cases "make_estimators env self")
  from assms m obtain u where v: "validate_parameters lr weight_decay epochs epsilon log_interval = Inr u"
    by (cases "validate_parameters lr weight_decay epochs epsilon log_interval")
       (simp_all add: regressor_fit_def)
  from assms m v obtain n where n: "decide_n_outputs train_loader True = Inr n"
    by (cases "decide_n_outputs train_loader True") (simp_all add: regressor_fit_def)
  let ?loop = "for_epochs (regressor_epoch env train_loader lr weight_decay optimizer epsilon
                            log_interval test_loader save_model) [0..<nat epochs]
                 \<lparr>cur_self = self1\<lparr>n_outputs := n\<rparr>, cur_estimators = estimators,
                  cur_best = Infinity, cur_shared = False\<rparr>"
  from assms m v n obtain st where st: "?loop = Inr st"
    by (cases ?loop) (simp_all add: regressor_fit_def)
  from assms m v n st have "self_estimators self' = cur_estimators st
      \<and> trace self' = trace (cur_self st)
            @ (if save_model \<and> \<not> given test_loader then [Saved (cur_estimators st)] else [])"
    by (auto simp: regressor_fit_def Let_def io_save_def record_events_def split: if_splits)
  with n st m show ?thesis by simp
qed

lemma toy_regressor_epoch_2:
  "regressor_epoch toy_regressor toy_constant lr wd opt (1/2) li (Some toy_holdout) True 2
     \<lparr>cur_self = \<lparr>n_estimators = Suc 0, n_outputs = Suc 0, self_estimators = [2],
                       trace = [Made_estimator, Made_optimizer 0 0, Saved [1],
                                Made_optimizer (Suc 0) 0, Saved [2]]\<rparr>,
          cur_estimators = [2], cur_best = Finite 0, cur_shared = True\<rparr>
   = Inr \<lparr>cur_self = \<lparr>n_estimators = Suc 0, n_outputs = Suc 0, self_estimators = [3],
                       trace = [Made_estimator, Made_optimizer 0 0, Saved [1],
                                Made_optimizer (Suc 0) 0, Saved [2], Made_optimizer 2 0]\<rparr>,
          cur_estimators = [3], cur_best = Finite 0, cur_shared = True\<rparr>"
proof -
  have "batches toy_holdout \<noteq> []" by (simp add: toy_holdout_def)
  then show ?thesis
    using toy_regressor_dispatch(2)[of lr wd 2 opt li 2 MSELoss False]
    by (simp add: regressor_epoch_def record_events_def toy_mse
        select_mse_def io_save_def Let_def share_training_def toy_in_place)
qed

lemma toy_constant_decide: "decide_n_outputs toy_constant True = Inr 1"
  by (simp add: decide_n_outputs_def toy_constant_def torch_cat_def torch_unique_def size_t_def)

lemma toy_regressor_fit:
  "regressor_fit toy_regressor toy_self toy_constant (1/1000) (5/10000) 3 ''Adam'' (1/2) 100
       (Some toy_holdout) True
     = Inr \<lparr>n_estimators = 1, n_outputs = 1, self_estimators = [3],
            trace = [Made_estimator, Made_optimizer 0 0, Saved [1], Made_optimizer 1 0,
                     Saved [2], Made_optimizer 2 0]\<rparr>"
proof -
  have g: "given (Some toy_holdout)" by (simp add: given_def toy_holdout_def)
  have "[0..<nat 3] = [0, Suc 0, 2]" by (simp add: upt_rec)
  then show ?thesis
    using g
    by (simp add: regressor_fit_def make_estimators_def toy_self_def record_events_def
        validate_parameters_def toy_constant_decide toy_regressor_epoch_0 toy_regressor_epoch_1
        toy_regressor_epoch_2 toy_regressor_def[THEN arg_cong[of _ _ base_estimator]])
qed

lemma toy_classifier_fit:
  "classifier_fit toy_classifier toy_self toy_train (1/1000) (5/10000) 2 ''Adam'' (1/2) 100
       (Some toy_test) True
     = Inr \<lparr>n_estimators = 1, n_outputs = 2, self_estimators = [2],
            trace = [Made_estimator, Made_optimizer 0 0, Saved [1], Made_optimizer 1 0]\<rparr>"
proof -
  have g: "given (Some toy_test)" by (simp add: given_def toy_test_def)
  have "[0..<nat 2] = [0, Suc 0]" by (simp add: upt_rec)
  then show ?thesis
    using g
    by (simp add: classifier_fit_def make_estimators_def toy_self_def record_events_def
        validate_parameters_def toy_decide toy_epoch_0 toy_epoch_1
        toy_classifier_def[THEN arg_cong[of _ _ base_estimator]])
qed

text \<open>
  Claim C1 as stated fails. A classifier is fitted for two epochs with a validation set;
  the estimators of the first epoch reach 60 % accuracy, those of the second 55 %. The
  first set is committed and saved, and the second epoch saves nothing; but \<open>fit\<close> returns
  with the estimators of the second epoch committed (the estimator after two steps),
  while the saved ensemble holds those of the first.
\<close>

theorem fit_commits_last_epoch_counterexample:
  "classifier_fit toy_classifier toy_self toy_train (1/1000) (5/10000) 2 ''Adam'' (1/2) 100
       (Some toy_test) True
     = Inr \<lparr>n_estimators = 1, n_outputs = 2, self_estimators = [2],
            trace = [Made_estimator, Made_optimizer 0 0, Saved [1], Made_optimizer 1 0]\<rparr>
   \<and> validation_acc toy_classifier (toy_self\<lparr>n_outputs := 2\<rparr>) [1] toy_test = Inr 60
   \<and> validation_acc toy_classifier (toy_self\<lparr>n_outputs := 2\<rparr>) [2] toy_test = Inr 55"
  using toy_classifier_fit by (simp add: toy_acc_1 toy_acc_2 toy_self_def)

text \<open>
  Claim C1, as the code has it. In an epoch with a validation set, of the classifier and
  of the regressor, exactly when the metric of the estimators just trained strictly
  improves on the best so far (\<open>acc > best_acc\<close>, \<open>mse < best_mse\<close>), the best value becomes
  that metric, these estimators are committed and, if asked for, the ensemble is saved
  with them. Otherwise the best value stays and nothing is saved; the committed
  estimators are then the ones just trained when training runs in place on objects that
  \<open>self.estimators_\<close> already holds, and are unchanged if not. When \<open>fit\<close> returns, the
  committed estimators are those of the last epoch, and the ensemble is saved after the
  loop only when no validation set was given.
\<close>

theorem committed_set_selection:
  "(classifier_epoch env train_loader lr weight_decay optimizer epsilon log_interval (Some l)
        save_model epoch c = Inr c' \<and> batches l \<noteq> []
      \<longrightarrow> (\<exists>evs rets acc.
             dispatch_epoch env train_loader lr weight_decay epoch optimizer epsilon log_interval
               (cur_estimators c) CrossEntropyLoss True = (evs, Inr rets)
             \<and> validation_acc env
                 (record_events evs (share_training env (cur_shared c) rets (cur_self c)))
                 rets l = Inr acc
             \<and> cur_estimators c' = rets
             \<and> (if acc > cur_best c
                 then cur_best c' = acc \<and> cur_shared c'
                      \<and> self_estimators (cur_self c') = rets
                      \<and> trace (cur_self c')
                          = trace (cur_self c) @ evs @ (if save_model then [Saved rets] else [])
                 else cur_best c' = cur_best c \<and> cur_shared c' = cur_shared c
                      \<and> self_estimators (cur_self c')
                          = (if in_place env \<and> cur_shared c then rets
                             else self_estimators (cur_self c))
                      \<and> trace (cur_self c') = trace (cur_self c) @ evs)))
   \<and> (regressor_epoch env train_loader lr weight_decay optimizer epsilon log_interval (Some l)
        save_model epoch r = Inr r' \<and> batches l \<noteq> []
      \<longrightarrow> (\<exists>evs rets mse.
             dispatch_epoch env train_loader lr weight_decay epoch optimizer epsilon log_interval
               (cur_estimators r) MSELoss False = (evs, Inr rets)
             \<and> validation_mse env
                 (record_events evs (share_training env (cur_shared r) rets (cur_self r)))
                 rets l = Inr mse
             \<and> cur_estimators r' = rets
             \<and> (if mse_less mse (cur_best r)
                 then cur_best r' = Finite mse \<and> cur_shared r'
                      \<and> self_estimators (cur_self r') = rets
                      \<and> trace (cur_self r')
                          = trace (cur_self r) @ evs @ (if save_model then [Saved rets] else [])
                 else cur_best r' = cur_best r \<and> cur_shared r' = cur_shared r
                      \<and> self_estimators (cur_self r')
                          = (if in_place env \<and> cur_shared r then rets
                             else self_estimators (cur_self r))
                      \<and> trace (cur_self r') = trace (cur_self r) @ evs)))
   \<and> (classifier_fit env self train_loader lr weight_decay epochs optimizer epsilon log_interval
        test_loader save_model = Inr self'
      \<longrightarrow> (\<exists>n st. decide_n_outputs train_loader True = Inr n
             \<and> for_epochs (classifier_epoch env train_loader lr weight_decay optimizer epsilon
                              log_interval test_loader save_model) [0..<nat epochs]
                   \<lparr>cur_self = (snd (make_estimators env self))\<lparr>n_outputs := n\<rparr>,
                    cur_estimators = fst (make_estimators env self),
                    cur_best = 0, cur_shared = False\<rparr> = Inr st
             \<and> self_estimators self' = cur_estimators st
             \<and> trace self' = trace (cur_self st)
                   @ (if save_model \<and> \<not> given test_loader then [Saved (cur_estimators st)]
                      else [])))
   \<and> (regressor_fit env self train_loader lr weight_decay epochs optimizer epsilon log_interval
        test_loader save_model = Inr self''
      \<longrightarrow> (\<exists>n st. decide_n_outputs train_loader True = Inr n
             \<and> for_epochs (regressor_epoch env train_loader lr weight_decay optimizer epsilon
                              log_interval test_loader save_model) [0..<nat epochs]
                   \<lparr>cur_self = (snd (make_estimators env self))\<lparr>n_outputs := n\<rparr>,
                    cur_estimators = fst (make_estimators env self),
                    cur_best = Infinity, cur_shared = False\<rparr> = Inr st
             \<and> self_estimators self'' = cur_estimators st
             \<and> trace self'' = trace (cur_self st)
                   @ (if save_model \<and> \<not> given test_loader then [Saved (cur_estimators st)]
                      else [])))"
proof (intro conjI impI)
  assume "classifier_epoch env train_loader lr weight_decay optimizer epsilon log_interval (Some l)
        save_model epoch c = Inr c' \<and> batches l \<noteq> []"
  then obtain evs rets acc where
    d: "dispatch_epoch env train_loader lr weight_decay epoch optimizer epsilon log_interval
               (cur_estimators c) CrossEntropyLoss True = (evs, Inr rets)"
    and v: "validation_acc env
              (record_events evs (share_training env (cur_shared c) rets (cur_self c)))
              rets l = Inr acc"
    and c': "c' = select_acc save_model
                   (record_events evs (share_training env (cur_shared c) rets (cur_self c)))
                   rets (cur_shared c) (cur_best c) acc"
    using classifier_epoch_validated by blast
  have "cur_estimators c' = rets
        \<and> (if acc > cur_best c
            then cur_best c' = acc \<and> cur_shared c'
                 \<and> self_estimators (cur_self c') = rets
                 \<and> trace (cur_self c')
                     = trace (cur_self c) @ evs @ (if save_model then [Saved rets] else [])
            else cur_best c' = cur_best c \<and> cur_shared c' = cur_shared c
                 \<and> self_estimators (cur_self c')
                     = (if in_place env \<and> cur_shared c then rets
                        else self_estimators (cur_self c))
                 \<and> trace (cur_self c') = trace (cur_self c) @ evs)"
    unfolding c'
    by (simp add: select_acc_def io_save_def record_events_def share_training_def Let_def)
  with d v show "\<exists>evs rets acc.
             dispatch_epoch env train_loader lr weight_decay epoch optimizer epsilon log_interval
               (cur_estimators c) CrossEntropyLoss True = (evs, Inr rets)
             \<and> validation_acc env
                 (record_events evs (share_training env (cur_shared c) rets (cur_self c)))
                 rets l = Inr acc
             \<and> cur_estimators c' = rets
             \<and> (if acc > cur_best c
                 then cur_best c' = acc \<and> cur_shared c'
                      \<and> self_estimators (cur_self c') = rets
                      \<and> trace (cur_self c')
                          = trace (cur_self c) @ evs @ (if save_model then [Saved rets] else [])
                 else cur_best c' = cur_best c \<and> cur_shared c' = cur_shared c
                      \<and> self_estimators (cur_self c')
                          = (if in_place env \<and> cur_shared c then rets
                             else self_estimators (cur_self c))
                      \<and> trace (cur_self c') = trace (cur_self c) @ evs)"
    by blast
next
  assume "regressor_epoch env train_loader lr weight_decay optimizer epsilon log_interval (Some l)
        save_model epoch r = Inr r' \<and> batches l \<noteq> []"
  then obtain evs rets mse where
    d: "dispatch_epoch env train_loader lr weight_decay epoch optimizer epsilon log_interval
               (cur_estimators r) MSELoss False = (evs, Inr rets)"
    and v: "validation_mse env
              (record_events evs (share_training env (cur_shared r) rets (cur_self r)))
              rets l = Inr mse"
    and r': "r' = select_mse save_model
                   (record_events evs (share_training env (cur_shared r) rets (cur_self r)))
                   rets (cur_shared r) (cur_best r) mse"
    using regressor_epoch_validated by blast
  have "cur_estimators r' = rets
        \<and> (if mse_less mse (cur_best r)
            then cur_best r' = Finite mse \<and> cur_shared r'
                 \<and> self_estimators (cur_self r') = rets
                 \<and> trace (cur_self r')
                     = trace (cur_self r) @ evs @ (if save_model then [Saved rets] else [])
            else cur_best r' = cur_best r \<and> cur_shared r' = cur_shared r
                 \<and> self_estimators (cur_self r')
                     = (if in_place env \<and> cur_shared r then rets
                        else self_estimators (cur_self r))
                 \<and> trace (cur_self r') = trace (cur_self r) @ evs)"
    unfolding r'
    by (simp add: select_mse_def io_save_def record_events_def share_training_def Let_def)
  with d v show "\<exists>evs rets mse.
             dispatch_epoch env train_loader lr weight_decay epoch optimizer epsilon log_interval
               (cur_estimators r) MSELoss False = (evs, Inr rets)
             \<and> validation_mse env
                 (record_events evs (share_training env (cur_shared r) rets (cur_self r)))
                 rets l = Inr mse
             \<and> cur_estimators r' = rets
             \<and> (if mse_less mse (cur_best r)
                 then cur_best r' = Finite mse \<and> cur_shared r'
                      \<and> self_estimators (cur_self r') = rets
                      \<and> trace (cur_self r')
                          = trace (cur_self r) @ evs @ (if save_model then [Saved rets] else [])
                 else cur_best r' = cur_best r \<and> cur_shared r' = cur_shared r
                      \<and> self_estimators (cur_self r')
                          = (if in_place env \<and> cur_shared r then rets
                             else self_estimators (cur_self r))
                      \<and> trace (cur_self r') = trace (cur_self r) @ evs)"
    by blast
next
  assume "classifier_fit env self train_loader lr weight_decay epochs optimizer epsilon
            log_interval test_loader save_model = Inr self'"
  then show "\<exists>n st. decide_n_outputs train_loader True = Inr n
             \<and> for_epochs (classifier_epoch env train_loader lr weight_decay optimizer epsilon
                              log_interval test_loader save_model) [0..<nat epochs]
                   \<lparr>cur_self = (snd (make_estimators env self))\<lparr>n_outputs := n\<rparr>,
                    cur_estimators = fst (make_estimators env self),
                    cur_best = 0, cur_shared = False\<rparr> = Inr st
             \<and> self_estimators self' = cur_estimators st
             \<and> trace self' = trace (cur_self st)
                   @ (if save_model \<and> \<not> given test_loader then [Saved (cur_estimators st)]
                      else [])"
    by (rule classifier_fit_Inr)
next
  assume "regressor_fit env self train_loader lr weight_decay epochs optimizer epsilon
            log_interval test_loader save_model = Inr self''"
  then show "\<exists>n st. decide_n_outputs train_loader True = Inr n
             \<and> for_epochs (regressor_epoch env train_loader lr weight_decay optimizer epsilon
                              log_interval test_loader save_model) [0..<nat epochs]
                   \<lparr>cur_self = (snd (make_estimators env self))\<lparr>n_outputs := n\<rparr>,
                    cur_estimators = fst (make_estimators env self),
                    cur_best = Infinity, cur_shared = False\<rparr> = Inr st
             \<and> self_estimators self'' = cur_estimators st
             \<and> trace self'' = trace (cur_self st)
                   @ (if save_model \<and> \<not> given test_loader then [Saved (cur_estimators st)]
                      else [])"
    by (rule regressor_fit_Inr)
qed

text \<open>
  On the small inputs, trained in place: the second epoch of the classifier (55 % after
  60 %) saves nothing and leaves the best value, and the committed estimator is the one
  it has just trained; \<open>fit\<close> returns with it. The regressor, with the errors 1, 0 and 1 in
  three epochs, is saved after the first and the second epoch and returns with the
  estimator of the third committed.
\<close>

theorem committed_set_selection_witness:
  "classifier_epoch toy_classifier toy_train (1/1000) (5/10000) ''Adam'' (1/2) 100 (Some toy_test)
       True 1
       \<lparr>cur_self = \<lparr>n_estimators = 1, n_outputs = 2, self_estimators = [1],
                     trace = [Made_estimator, Made_optimizer 0 0, Saved [1]]\<rparr>,
        cur_estimators = [1], cur_best = 60, cur_shared = True\<rparr>
     = Inr \<lparr>cur_self = \<lparr>n_estimators = 1, n_outputs = 2, self_estimators = [2],
                         trace = [Made_estimator, Made_optimizer 0 0, Saved [1],
                                  Made_optimizer 1 0]\<rparr>,
            cur_estimators = [2], cur_best = 60, cur_shared = True\<rparr>
   \<and> classifier_fit toy_classifier toy_self toy_train (1/1000) (5/10000) 2 ''Adam'' (1/2) 100
       (Some toy_test) True
     = Inr \<lparr>n_estimators = 1, n_outputs = 2, self_estimators = [2],
            trace = [Made_estimator, Made_optimizer 0 0, Saved [1], Made_optimizer 1 0]\<rparr>
   \<and> regressor_fit toy_regressor toy_self toy_constant (1/1000) (5/10000) 3 ''Adam'' (1/2) 100
       (Some toy_holdout) True
     = Inr \<lparr>n_estimators = 1, n_outputs = 1, self_estimators = [3],
            trace = [Made_estimator, Made_optimizer 0 0, Saved [1], Made_optimizer 1 0,
                     Saved [2], Made_optimizer 2 0]\<rparr>"
  using committed_set_selection [of toy_classifier toy_train "1/1000" "5/10000" "''Adam''" "1/2"
      100 toy_test True 1
      "\<lparr>cur_self = \<lparr>n_estimators = 1, n_outputs = 2, self_estimators = [1],
                     trace = [Made_estimator, Made_optimizer 0 0, Saved [1]]\<rparr>,
        cur_estimators = [1], cur_best = 60, cur_shared = True\<rparr>"
      "\<lparr>cur_self = \<lparr>n_estimators = 1, n_outputs = 2, self_estimators = [2],
                         trace = [Made_estimator, Made_optimizer 0 0, Saved [1],
                                  Made_optimizer 1 0]\<rparr>,
            cur_estimators = [2], cur_best = 60, cur_shared = True\<rparr>"
      _ _ toy_self 2 "Some toy_test"
      "\<lparr>n_estimators = 1, n_outputs = 2, self_estimators = [2],
            trace = [Made_estimator, Made_optimizer 0 0, Saved [1], Made_optimizer 1 0]\<rparr>"]
    toy_classifier_fit toy_regressor_fit
  by (simp add: toy_epoch_1)

section \<open>Properties of the dispatch\<close>

lemma parallel_Inr:
  "parallel f xs = (evs, Inr ys)
   \<Longrightarrow> length ys = length xs \<and> (\<forall>i<length xs. snd (f (xs ! i)) = Inr (ys ! i))"
proof (induction xs arbitrary: evs ys)
  case Nil
  then show ?case by simp
next
  case (Cons x xs)
  from Cons.prems obtain e1 y e2 ys' where
    fx: "f x = (e1, Inr y)" and rest: "parallel f xs = (e2, Inr ys')" and ys: "ys = y # ys'"
    by (auto split: prod.splits sum.splits)
  from Cons.IH[OF rest] fx ys show ?case by (auto simp: nth_Cons')
qed

lemma parallel_all_ok:
  "\<forall>i<length xs. snd (f (xs ! i)) = Inr (g i)
   \<Longrightarrow> snd (parallel f xs) = Inr (map g [0..<length xs])"
proof (induction xs arbitrary: g)
  case Nil
  then show ?case by simp
next
  case (Cons x xs)
  from Cons.prems have fx: "snd (f x) = Inr (g 0)" by auto
  from Cons.prems have "\<forall>i<length xs. snd (f (xs ! i)) = Inr ((g \<circ> Suc) i)" by auto
  from Cons.IH[OF this] have rest: "snd (parallel f xs) = Inr (map (g \<circ> Suc) [0..<length xs])" .
  have "map g [0..<length (x # xs)] = g 0 # map (g \<circ> Suc) [0..<length xs]"
    by (simp add: map_upt_Suc del: upt_Suc)
  with fx rest show ?case
    by (cases "f x"; cases "parallel f xs") simp
qed

text \<open>
  Claim C9. A dispatch of one epoch over a list of estimators returns the list \<open>rets\<close>
  exactly when \<open>rets\<close> has the length of the input list and, for every index \<open>i\<close>, its
  element \<open>i\<close> is what training the input estimator \<open>i\<close> (as task \<open>i\<close>) returns.
\<close>

theorem dispatch_epoch_keeps_order:
  "(\<exists>evs. dispatch_epoch env train_loader lr weight_decay epoch optimizer epsilon log_interval
            estimators crit is_classification = (evs, Inr rets))
   \<longleftrightarrow> length rets = length estimators
       \<and> (\<forall>i<length estimators.
             snd (parallel_fit_per_epoch env train_loader lr weight_decay epoch optimizer epsilon
                    log_interval i (estimators ! i) crit is_classification) = Inr (rets ! i))"
proof
  let ?f = "\<lambda>(idx, estimator). parallel_fit_per_epoch env train_loader lr weight_decay epoch
              optimizer epsilon log_interval idx estimator crit is_classification"
  assume "\<exists>evs. dispatch_epoch env train_loader lr weight_decay epoch optimizer epsilon
            log_interval estimators crit is_classification = (evs, Inr rets)"
  then obtain evs where "parallel ?f (enumerate 0 estimators) = (evs, Inr rets)"
    by (auto simp: dispatch_epoch_def)
  from parallel_Inr[OF this]
  show "length rets = length estimators
       \<and> (\<forall>i<length estimators.
             snd (parallel_fit_per_epoch env train_loader lr weight_decay epoch optimizer epsilon
                    log_interval i (estimators ! i) crit is_classification) = Inr (rets ! i))"
    by (simp add: nth_enumerate_eq)
next
  let ?f = "\<lambda>(idx, estimator). parallel_fit_per_epoch env train_loader lr weight_decay epoch
              optimizer epsilon log_interval idx estimator crit is_classification"
  assume a: "length rets = length estimators
       \<and> (\<forall>i<length estimators.
             snd (parallel_fit_per_epoch env train_loader lr weight_decay epoch optimizer epsilon
                    log_interval i (estimators ! i) crit is_classification) = Inr (rets ! i))"
  then have "\<forall>i<length (enumerate 0 estimators).
               snd (?f (enumerate 0 estimators ! i)) = Inr (rets ! i)"
    by (simp add: nth_enumerate_eq)
  from parallel_all_ok[OF this]
  have "snd (parallel ?f (enumerate 0 estimators)) = Inr (map ((!) rets) [0..<length rets])"
    using a by simp
  then have "snd (parallel ?f (enumerate 0 estimators)) = Inr rets"
    by (simp add: map_nth)
  then show "\<exists>evs. dispatch_epoch env train_loader lr weight_decay epoch optimizer epsilon
            log_interval estimators crit is_classification = (evs, Inr rets)"
    by (cases "parallel ?f (enumerate 0 estimators)") (simp add: dispatch_epoch_def)
qed

theorem dispatch_epoch_keeps_order_witness:
  "\<exists>evs. dispatch_epoch toy_classifier toy_train (1/1000) 0 3 ''SGD'' (1/2) 100 [0, 5]
            CrossEntropyLoss True = (evs, Inr [1, 6])"
proof -
  have "length [1, 6 :: int] = length [0, 5 :: int]
       \<and> (\<forall>i<length [0, 5 :: int].
             snd (parallel_fit_per_epoch toy_classifier toy_train (1/1000) 0 3 ''SGD'' (1/2)
                    100 i ([0, 5] ! i) CrossEntropyLoss True) = Inr ([1, 6] ! i))"
    by (auto simp: toy_task less_Suc_eq)
  then show ?thesis
    using dispatch_epoch_keeps_order [of toy_classifier toy_train "1/1000" 0 3 "''SGD''" "1/2"
                                         100 "[0, 5]" CrossEntropyLoss True "[1, 6]"]
    by blast
qed

section \<open>Properties of the set-up of \<open>fit\<close>\<close>

lemma validate_parameters_Inl:
  assumes "\<not> (0 < lr \<and> 0 \<le> weight_decay \<and> 0 < epochs \<and> 0 < epsilon \<and> epsilon \<le> 1
              \<and> 0 < log_interval)"
  shows "\<exists>e. validate_parameters lr weight_decay epochs epsilon log_interval = Inl (ValueError e)"
  using assms by (auto simp: validate_parameters_def)

text \<open>
  Claim C3, as the code has it. \<open>fit\<close> first constructs its \<open>n_estimators\<close> base estimators
  and then validates the hyper-parameters, before the number of outputs is decided and
  before any optimizer is constructed or any batch is trained on: when a hyper-parameter
  (\<open>lr\<close>, \<open>weight_decay\<close>, \<open>epochs\<close>, \<open>epsilon\<close>, \<open>log_interval\<close>) is invalid, \<open>fit\<close> of the
  classifier and of the regressor fails with the \<open>ValueError\<close> of the validation, and all
  that has happened is the construction of the \<open>n_estimators\<close> estimators; the committed
  estimators are unchanged.
\<close>

theorem fit_validates_after_construction:
  assumes "\<not> (0 < lr \<and> 0 \<le> weight_decay \<and> 0 < epochs \<and> 0 < epsilon \<and> epsilon \<le> 1
              \<and> 0 < log_interval)"
  shows "\<exists>e. classifier_fit env self train_loader lr weight_decay epochs optimizer epsilon
                log_interval test_loader save_model
              = Inl (ValueError e,
                     self\<lparr>trace := trace self @ replicate (n_estimators self) Made_estimator\<rparr>)
            \<and> regressor_fit env self train_loader lr weight_decay epochs optimizer epsilon
                log_interval test_loader save_model
              = Inl (ValueError e,
                     self\<lparr>trace := trace self @ replicate (n_estimators self) Made_estimator\<rparr>)"
proof -
  from validate_parameters_Inl[OF assms] obtain e where
    "validate_parameters lr weight_decay epochs epsilon log_interval = Inl (ValueError e)" ..
  then show ?thesis
    by (simp add: classifier_fit_def regressor_fit_def make_estimators_def record_events_def)
qed

theorem fit_validates_after_construction_witness:
  "\<exists>e. classifier_fit toy_classifier toy_self toy_train (1/1000) 0 2 ''Adam'' 2 100 None True
          = Inl (ValueError e,
                 \<lparr>n_estimators = 1, n_outputs = 0, self_estimators = [], trace = [Made_estimator]\<rparr>)
        \<and> regressor_fit toy_classifier toy_self toy_train (1/1000) 0 2 ''Adam'' 2 100 None True
          = Inl (ValueError e,
                 \<lparr>n_estimators = 1, n_outputs = 0, self_estimators = [], trace = [Made_estimator]\<rparr>)"
  using fit_validates_after_construction [of "1/1000" 0 2 2 100 toy_classifier toy_self toy_train
                                              "''Adam''" None True]
  by (simp add: toy_self_def)

text \<open>
  Claim C3 as stated, that \<open>fit\<close> fails without ever having constructed an estimator,
  fails for a learning rate of 0 and three estimators: the three are constructed first.
\<close>

theorem fit_constructs_before_validating_counterexample:
  "classifier_fit toy_classifier
       \<lparr>n_estimators = 3, n_outputs = 0, self_estimators = [], trace = []\<rparr>
       toy_train 0 (5/10000) 2 ''Adam'' (1/2) 100 None True
     = Inl (ValueError (Learning_rate 0),
            \<lparr>n_estimators = 3, n_outputs = 0, self_estimators = [],
             trace = [Made_estimator, Made_estimator, Made_estimator]\<rparr>)"
  by (simp add: classifier_fit_def make_estimators_def record_events_def validate_parameters_def
      replicate_numeral)

lemma regressor_epoch_n_outputs:
  assumes "regressor_epoch env train_loader lr weight_decay optimizer epsilon log_interval
             test_loader save_model epoch st = Inr st'"
  shows "n_outputs (cur_self st') = n_outputs (cur_self st)"
proof -
  from regressor_epoch_Inr[OF assms] obtain evs rets where
    "st' = \<lparr>cur_self = record_events evs (share_training env (cur_shared st) rets (cur_self st)), cur_estimators = rets,
                     cur_best = cur_best st, cur_shared = cur_shared st\<rparr>
     \<or> (\<exists>mse. st' = select_mse save_model (record_events evs (share_training env (cur_shared st) rets (cur_self st))) rets (cur_shared st)
                                 (cur_best st) mse)" by blast
  then show ?thesis
    by (auto simp: select_mse_def io_save_def record_events_def share_training_def Let_def)
qed

lemma regressor_epochs_n_outputs:
  "for_epochs (regressor_epoch env train_loader lr weight_decay optimizer epsilon
                 log_interval test_loader save_model) es s = Inr s'
   \<Longrightarrow> n_outputs (cur_self s') = n_outputs (cur_self s)"
proof (induction es arbitrary: s)
  case Nil
  then show ?case by simp
next
  case (Cons epoch es)
  then obtain m where m: "regressor_epoch env train_loader lr weight_decay optimizer epsilon
        log_interval test_loader save_model epoch s = Inr m"
    and rest: "for_epochs (regressor_epoch env train_loader lr weight_decay optimizer epsilon
                 log_interval test_loader save_model) es m = Inr s'"
    by (auto split: sum.splits)
  from Cons.IH[OF rest] regressor_epoch_n_outputs[OF m] show ?case by simp
qed

text \<open>
  Whenever the regressor's \<open>fit\<close> returns, its \<open>n_outputs\<close> is what the classification
  branch of \<open>_decide_n_outputs\<close> computes for the training loader.
\<close>

lemma regressor_fit_n_outputs:
  assumes "regressor_fit env self train_loader lr weight_decay epochs optimizer epsilon
             log_interval test_loader save_model = Inr self'"
  shows "decide_n_outputs train_loader True = Inr (n_outputs self')"
proof -
  obtain estimators self1 where m: "make_estimators env self = (estimators, self1)"
    by (cases "make_estimators env self")
  from assms m obtain u where v: "validate_parameters lr weight_decay epochs epsilon log_interval = Inr u"
    by (cases "validate_parameters lr weight_decay epochs epsilon log_interval")
       (simp_all add: regressor_fit_def)
  from assms m v obtain n where n: "decide_n_outputs train_loader True = Inr n"
    by (cases "decide_n_outputs train_loader True") (simp_all add: regressor_fit_def)
  let ?loop = "for_epochs (regressor_epoch env train_loader lr weight_decay optimizer epsilon
                            log_interval test_loader save_model) [0..<nat epochs]
                 \<lparr>cur_self = self1\<lparr>n_outputs := n\<rparr>, cur_estimators = estimators,
                  cur_best = Infinity, cur_shared = False\<rparr>"
  from assms m v n obtain st where st: "?loop = Inr st"
    by (cases ?loop) (simp_all add: regressor_fit_def)
  from regressor_epochs_n_outputs[OF st] have "n_outputs (cur_self st) = n" by simp
  moreover from assms m v n st have "n_outputs self' = n_outputs (cur_self st)"
    by (auto simp: regressor_fit_def Let_def io_save_def record_events_def split: if_splits)
  ultimately show ?thesis using n by simp
qed

text \<open>
  Claim C2, on the code. The regressor is fitted on a training set whose first target
  batch has rank 1 and four different values. \<open>fit\<close> decides the number of outputs with
  the classification flag, so it counts the different target values and sets
  \<open>n_outputs\<close> to 4; the regression branch of \<open>_decide_n_outputs\<close> gives 1 on this
  loader.
\<close>

theorem regressor_fit_counts_distinct_targets:
  "regressor_fit toy_regressor toy_self toy_targets (1/1000) (5/10000) 1 ''Adam'' (1/2) 100
       None False
     = Inr \<lparr>n_estimators = 1, n_outputs = 4, self_estimators = [1],
            trace = [Made_estimator, Made_optimizer 0 0]\<rparr>
   \<and> decide_n_outputs toy_targets False = Inr 1"
  by (simp add: regressor_fit_def make_estimators_def toy_self_def record_events_def
      validate_parameters_def toy_targets_decide regressor_epoch_def toy_regressor_dispatch
      given_def share_training_def toy_regressor_def[THEN arg_cong[of _ _ base_estimator]])

end
